theory Spec2Isabelle
  imports Main
begin

section \<open>Python strings\<close>

text \<open>
  The downloader of \<^verbatim>\<open>sec_filings_downloader.py\<close> works on Python strings. A string is
  modelled as a list of characters; the character operations below are those of Python on
  ASCII text, which is what EDGAR paths, dates and ticker symbols are made of.
\<close>

text \<open>\<^verbatim>\<open>sub in s\<close> and \<^verbatim>\<open>s.startswith(p)\<close>.\<close>

fun startswith :: "string \<Rightarrow> string \<Rightarrow> bool" where
  "startswith s [] = True"
| "startswith [] (p # ps) = False"
| "startswith (c # cs) (p # ps) = (c = p \<and> startswith cs ps)"

fun contains :: "string \<Rightarrow> string \<Rightarrow> bool" where
  "contains sub [] = (sub = [])"
| "contains sub (c # cs) = (startswith (c # cs) sub \<or> contains sub cs)"

text \<open>\<^verbatim>\<open>s.lower()\<close> and \<^verbatim>\<open>s.upper()\<close> on ASCII letters; other characters are unchanged.\<close>

definition lower_char :: "char \<Rightarrow> char" where
  "lower_char c =
     (case map_of (zip ''ABCDEFGHIJKLMNOPQRSTUVWXYZ'' ''abcdefghijklmnopqrstuvwxyz'') c of
        Some d \<Rightarrow> d
      | None \<Rightarrow> c)"

definition upper_char :: "char \<Rightarrow> char" where
  "upper_char c =
     (case map_of (zip ''abcdefghijklmnopqrstuvwxyz'' ''ABCDEFGHIJKLMNOPQRSTUVWXYZ'') c of
        Some d \<Rightarrow> d
      | None \<Rightarrow> c)"

definition lower :: "string \<Rightarrow> string" where
  "lower s = map lower_char s"

definition upper :: "string \<Rightarrow> string" where
  "upper s = map upper_char s"

text \<open>\<^verbatim>\<open>s.split(sep)\<close> for a one-character separator: never the empty list.\<close>

fun split_char :: "char \<Rightarrow> string \<Rightarrow> string list" where
  "split_char sep [] = [[]]"
| "split_char sep (c # cs) =
     (if c = sep then [] # split_char sep cs
      else (case split_char sep cs of
              w # ws \<Rightarrow> (c # w) # ws
            | [] \<Rightarrow> [[c]]))"

text \<open>
  Whitespace as \<^verbatim>\<open>str.isspace\<close> sees it on ASCII: tab, line feed, vertical tab, form
  feed, carriage return, the four separators \<^verbatim>\<open>0x1c\<close> to \<^verbatim>\<open>0x1f\<close>, and the space.
\<close>

definition is_space :: "char \<Rightarrow> bool" where
  "is_space c = (of_char c \<in> set [9, 10, 11, 12, 13, 28, 29, 30, 31, 32 :: nat])"

definition lstrip :: "string \<Rightarrow> string" where
  "lstrip s = dropWhile is_space s"

definition rstrip :: "string \<Rightarrow> string" where
  "rstrip s = rev (dropWhile is_space (rev s))"

definition strip :: "string \<Rightarrow> string" where
  "strip s = lstrip (rstrip s)"

text \<open>\<^verbatim>\<open>sep.join(xs)\<close>.\<close>

fun join :: "string \<Rightarrow> string list \<Rightarrow> string" where
  "join sep [] = []"
| "join sep [x] = x"
| "join sep (x # y # ys) = x @ sep @ join sep (y # ys)"

text \<open>
  \<^verbatim>\<open>s.replace(old, new)\<close> for a non-empty \<^verbatim>\<open>old\<close>: the occurrences are replaced from
  the left, without overlap. (The source only replaces non-empty strings.)
\<close>

function replace :: "string \<Rightarrow> string \<Rightarrow> string \<Rightarrow> string" where
  "replace old new [] = []"
| "replace old new (c # cs) =
     (if old \<noteq> [] \<and> startswith (c # cs) old
      then new @ replace old new (drop (length old) (c # cs))
      else c # replace old new cs)"
  by pat_completeness auto
termination
  by (relation "measure (\<lambda>(old, new, s). length s)") auto


text \<open>The line feed, the separator of \<^verbatim>\<open>split('\n')\<close> and \<^verbatim>\<open>'\n'.join\<close>.\<close>

definition nl :: char where
  "nl = CHR 0x0A"

section \<open>Errors, the outside world and the downloader's state\<close>

text \<open>
  Exceptions are values. \<^verbatim>\<open>RequestException\<close> stands for whatever \<^verbatim>\<open>requests\<close> raises
  (timeouts, connection errors, \<^verbatim>\<open>raise_for_status\<close>), \<^verbatim>\<open>ParseError\<close> for what the
  JSON and HTML parsers raise.
\<close>

datatype py_error =
    ValueError
  | AttributeError
  | TypeError
  | IndexError
  | OSError
  | RequestException
  | ParseError

record response =
  status_code :: int
  resp_text :: string

text \<open>
  A \<^verbatim>\<open>pathlib.Path\<close> is kept as the sequence of segments it was built from:
  \<^verbatim>\<open>Path(a)\<close> is \<open>[a]\<close> and \<^verbatim>\<open>p / b\<close> appends \<open>b\<close>. Equal segment sequences
  denote the same file.
\<close>

type_synonym path = "string list"

definition Path :: "string \<Rightarrow> path" where
  "Path p = [p]"

definition path_join :: "path \<Rightarrow> string \<Rightarrow> path" where
  "path_join p seg = p @ [seg]"

text \<open>
  One filing record of the index (the dictionary built at lines 97-102).
\<close>

record filing =
  accession_number :: string
  filing_date :: string
  report_date :: string
  form_type :: string

text \<open>
  The \<^verbatim>\<open>filings.recent\<close> object of a submissions document: its four parallel arrays, an
  absent key read as the empty array (\<^verbatim>\<open>filings_data.get(key, [])\<close>).
\<close>

record recent =
  form :: "string list"
  accessionNumber :: "string list"
  filingDate :: "string list"
  reportDate :: "string list"

text \<open>
  What the program does not own is a parameter: the network (\<^verbatim>\<open>requests.get\<close>), the
  JSON and HTML parsers, the file system and the clock.
  \<^item> \<open>requests_get url\<close> is the response, or the exception \<^verbatim>\<open>requests.get\<close> raises;
  \<^item> \<open>json_tickers body\<close> is the list of \<^verbatim>\<open>(entry['ticker'], str(entry['cik_str']))\<close>
    over \<^verbatim>\<open>response.json().values()\<close>, or the exception raised on the way;
  \<^item> \<open>json_recent body\<close> is \<^verbatim>\<open>data.get('filings', {}).get('recent', {})\<close> when that is
    a dictionary with a key \<^verbatim>\<open>'form'\<close>, \<open>None\<close> when it is not;
  \<^item> \<open>soup_hrefs body\<close> is \<^verbatim>\<open>link.get('href', '')\<close> over \<^verbatim>\<open>soup.find_all('a')\<close>, in
    document order;
  \<^item> \<open>soup_text body\<close> is the text of line 171, after the markup of lines 160-169 is
    removed;
  \<^item> \<open>mkdir_fails\<close> and \<open>write_fails\<close> say where the file system refuses;
  \<^item> \<open>utc_year\<close> is the calendar year of the clock, in UTC.
\<close>

record env =
  requests_get :: "string \<Rightarrow> py_error + response"
  json_tickers :: "string \<Rightarrow> py_error + (string \<times> string) list"
  json_recent :: "string \<Rightarrow> py_error + recent option"
  soup_hrefs :: "string \<Rightarrow> py_error + string list"
  soup_text :: "string \<Rightarrow> py_error + string"
  mkdir_fails :: "path \<Rightarrow> bool"
  write_fails :: "path \<Rightarrow> bool"
  utc_year :: int

text \<open>
  The state: the fields of the \<^verbatim>\<open>SECFilingDownloader\<close> object, and what the program has
  done to the world so far (the URLs requested, the directories made, the files written,
  each in order).
\<close>

record state =
  output_folder_10k :: "path option"
  output_folder_10q :: "path option"
  cik_lookup :: "string \<rightharpoonup> string"
  requests_made :: "string list"
  dirs_made :: "path list"
  files_written :: "(path \<times> string) list"

definition http_get :: "env \<Rightarrow> string \<Rightarrow> state \<Rightarrow> (py_error + response) \<times> state" where
  "http_get e url s = (requests_get e url, s\<lparr>requests_made := requests_made s @ [url]\<rparr>)"

text \<open>Python's truth value of an \<^verbatim>\<open>Optional[str]\<close>: \<^verbatim>\<open>None\<close> and \<^verbatim>\<open>''\<close> are false.\<close>

definition falsy :: "string option \<Rightarrow> bool" where
  "falsy v = (v = None \<or> v = Some [])"

section \<open>The document extractor\<close>

subsection \<open>Choosing the primary document (lines 124-149)\<close>

text \<open>
  One turn of the loop of lines 127-138, on the pair \<open>(main_doc, all_htm_files)\<close>.
\<close>

definition scan_link ::
  "string \<Rightarrow> string option \<times> (string \<times> string) list \<Rightarrow> string option \<times> (string \<times> string) list"
where
  "scan_link href st =
     (case st of (main_doc, all_htm_files) \<Rightarrow>
        if href \<noteq> [] \<and> contains ''/Archives/edgar'' href \<and> contains ''.htm'' (lower href) then
          (let filename = lower (last (split_char CHR ''/'' href)) in
           if \<not> contains ''index'' filename \<and> \<not> contains ''/search'' href then
             (let all_htm_files' = all_htm_files @ [(filename, href)] in
              if \<not> contains ''exhibit'' filename
                 \<and> \<not> (startswith filename ''r'' \<and> length filename < 10) then
                (if falsy main_doc then (Some href, all_htm_files') else (main_doc, all_htm_files'))
              else (main_doc, all_htm_files'))
           else st)
        else st)"

text \<open>The loop of lines 141-144: the path of the first file named \<^verbatim>\<open>r1.htm\<close>.\<close>

fun find_r1 :: "(string \<times> string) list \<Rightarrow> string option" where
  "find_r1 [] = None"
| "find_r1 ((fname, fpath) # rest) = (if fname = ''r1.htm'' then Some fpath else find_r1 rest)"

definition choose_main_doc :: "string list \<Rightarrow> string option" where
  "choose_main_doc hrefs =
     (case fold scan_link hrefs (None, []) of (main_doc, all_htm_files) \<Rightarrow>
        (let main_doc' =
               (if falsy main_doc \<and> all_htm_files \<noteq> [] then
                  (let m = find_r1 all_htm_files in
                   if falsy m then Some (snd (hd all_htm_files)) else m)
                else main_doc)
         in if falsy main_doc' then None else main_doc'))"

subsection \<open>Cleaning the text (lines 173-200)\<close>

definition is_xbrl_ref :: "string \<Rightarrow> bool" where
  "is_xbrl_ref line =
     (contains ''http'' line
      \<and> (contains ''fasb.org'' line \<or> contains ''sec.gov/Archives/edgar/xmlbrl'' line))"

definition is_ns_token :: "string \<Rightarrow> bool" where
  "is_ns_token line =
     (length (strip line) < 100 \<and> contains '':'' line \<and> \<not> contains '' '' line
      \<and> list_ex (startswith line)
           [''aapl:'', ''us-gaap:'', ''xbrli:'', ''iso4217:'', ''usfr:'', ''exch:'', ''dei:''])"

text \<open>One turn of the loop of lines 176-195, on the pair \<open>(found_start, lines)\<close>.\<close>

definition clean_step :: "string \<Rightarrow> bool \<times> string list \<Rightarrow> bool \<times> string list" where
  "clean_step raw st =
     (case st of (found_start, lines) \<Rightarrow>
        (let line = rstrip raw in
         if line = [] \<or> length (strip line) = 0 then st
         else if \<not> found_start \<and> \<not> contains ''UNITED STATES'' line then st
         else if is_xbrl_ref line then (True, lines)
         else if is_ns_token line then (True, lines)
         else (True, lines @ [line])))"

definition clean_lines :: "string \<Rightarrow> string list" where
  "clean_lines txt = snd (fold clean_step (split_char nl txt) (False, []))"


text \<open>
  The loop of lines 199-200 replaces three line feeds by two for as long as three in a row
  remain. Each turn shortens the text, which is why the loop ends.
\<close>

lemma startswith_length: "startswith s p \<Longrightarrow> length p \<le> length s"
  by (induction s p rule: startswith.induct) auto

lemma replace_length_le:
  "length new \<le> length old \<Longrightarrow> length (replace old new s) \<le> length s"
proof (induction old new s rule: replace.induct)
  case (1 old new)
  then show ?case by simp
next
  case (2 old new c cs)
  show ?case
  proof (cases "old \<noteq> [] \<and> startswith (c # cs) old")
    case True
    then have "length old \<le> length (c # cs)"
      using startswith_length by blast
    moreover have
      "length (replace old new (drop (length old) (c # cs))) \<le> length (c # cs) - length old"
      using 2 True by simp
    ultimately show ?thesis
      using True 2(3) by simp
  next
    case False
    then show ?thesis
      using 2 by auto
  qed
qed

lemma replace_length_less:
  "length new < length old \<Longrightarrow> contains old s \<Longrightarrow> length (replace old new s) < length s"
proof (induction old new s rule: replace.induct)
  case (1 old new)
  then show ?case by simp
next
  case (2 old new c cs)
  show ?case
  proof (cases "old \<noteq> [] \<and> startswith (c # cs) old")
    case True
    then have "length old \<le> length (c # cs)"
      using startswith_length by blast
    moreover have
      "length (replace old new (drop (length old) (c # cs))) \<le> length (c # cs) - length old"
      using replace_length_le [of new old "drop (length old) (c # cs)"] 2(3) by simp
    ultimately show ?thesis
      using True 2(3) by simp
  next
    case False
    then have "contains old cs"
      using 2(3) 2(4) by auto
    then show ?thesis
      using 2 False by auto
  qed
qed

function collapse_blank :: "string \<Rightarrow> string" where
  "collapse_blank cleaned =
     (if contains [nl, nl, nl] cleaned
      then collapse_blank (replace [nl, nl, nl] [nl, nl] cleaned)
      else cleaned)"
  by pat_completeness auto
termination
  by (relation "measure length") (auto simp: replace_length_less)

text \<open>Lines 173-200 as a whole: the value of \<^verbatim>\<open>cleaned\<close> when line 202 is reached.\<close>

definition clean_text :: "string \<Rightarrow> string" where
  "clean_text txt = collapse_blank (join [nl] (clean_lines txt))"

subsection \<open>Fetching a filing (lines 109-209)\<close>

text \<open>\<^verbatim>\<open>cik.lstrip('0') or '0'\<close>.\<close>

definition cik_num :: "string \<Rightarrow> string" where
  "cik_num cik = (let t = dropWhile (\<lambda>c. c = CHR ''0'') cik in if t = [] then ''0'' else t)"

definition dir_url :: "string \<Rightarrow> string \<Rightarrow> string" where
  "dir_url cik accession =
     ''https://www.sec.gov/Archives/edgar/data/'' @ cik_num cik @ ''/''
       @ replace ''-'' [] accession @ ''/''"

definition main_doc_url :: "string \<Rightarrow> string" where
  "main_doc_url main_doc =
     (if startswith main_doc ''/'' then ''https://www.sec.gov'' @ main_doc else main_doc)"

text \<open>
  The body of the \<^verbatim>\<open>try\<close> of lines 110-205: \<open>Inl\<close> is an exception raised inside it, \<open>Inr\<close>
  what it returns. The pause of line 111 takes time and changes nothing.
\<close>

definition fetch_body ::
  "env \<Rightarrow> string \<Rightarrow> string \<Rightarrow> state \<Rightarrow> (py_error + string option) \<times> state"
where
  "fetch_body e cik accession s =
     (case http_get e (dir_url cik accession) s of
        (Inl err, s1) \<Rightarrow> (Inl err, s1)
      | (Inr response, s1) \<Rightarrow>
          if status_code response \<noteq> 200 then (Inr None, s1)
          else
            (case soup_hrefs e (resp_text response) of
               Inl err \<Rightarrow> (Inl err, s1)
             | Inr hrefs \<Rightarrow>
                 (case choose_main_doc hrefs of
                    None \<Rightarrow> (Inr None, s1)
                  | Some main_doc \<Rightarrow>
                      (case http_get e (main_doc_url main_doc) s1 of
                         (Inl err, s2) \<Rightarrow> (Inl err, s2)
                       | (Inr doc_response, s2) \<Rightarrow>
                           if status_code doc_response \<noteq> 200 then (Inr None, s2)
                           else
                             (case soup_text e (resp_text doc_response) of
                                Inl err \<Rightarrow> (Inl err, s2)
                              | Inr txt \<Rightarrow>
                                  (let cleaned = clean_text txt in
                                   if length cleaned > 5000 then (Inr (Some cleaned), s2)
                                   else (Inr None, s2)))))))"

text \<open>The \<^verbatim>\<open>except Exception\<close> of lines 207-209 turns every exception into \<^verbatim>\<open>None\<close>.\<close>

definition fetch_filing_from_edgar ::
  "env \<Rightarrow> string \<Rightarrow> string \<Rightarrow> state \<Rightarrow> string option \<times> state"
where
  "fetch_filing_from_edgar e cik accession s =
     (case fetch_body e cik accession s of
        (Inl err, s') \<Rightarrow> (None, s')
      | (Inr r, s') \<Rightarrow> (r, s'))"


section \<open>Integers and their text\<close>

definition is_digit :: "char \<Rightarrow> bool" where
  "is_digit c = (c \<in> set ''0123456789'')"

definition digit_val :: "char \<Rightarrow> int" where
  "digit_val c = int (of_char c) - 48"

text \<open>
  The digits of an integer literal as \<^verbatim>\<open>int\<close> reads them: decimal digits, with single
  underscores allowed between two digits. \<open>prev\<close> says that the character before was a
  digit.
\<close>

fun parse_digits :: "string \<Rightarrow> bool \<Rightarrow> int \<Rightarrow> int option" where
  "parse_digits [] prev acc = (if prev then Some acc else None)"
| "parse_digits (c # cs) prev acc =
     (if is_digit c then parse_digits cs True (acc * 10 + digit_val c)
      else if c = CHR ''_'' \<and> prev then parse_digits cs False acc
      else None)"

text \<open>
  \<^verbatim>\<open>int(s)\<close> for a string: surrounding whitespace is ignored, one sign is allowed, and
  anything else raises \<^verbatim>\<open>ValueError\<close>.
\<close>

definition py_int :: "string \<Rightarrow> py_error + int" where
  "py_int s =
     (case strip s of
        [] \<Rightarrow> Inl ValueError
      | c # cs \<Rightarrow>
          if c = CHR ''-'' then
            (case parse_digits cs False 0 of None \<Rightarrow> Inl ValueError | Some n \<Rightarrow> Inr (- n))
          else if c = CHR ''+'' then
            (case parse_digits cs False 0 of None \<Rightarrow> Inl ValueError | Some n \<Rightarrow> Inr n)
          else
            (case parse_digits (c # cs) False 0 of None \<Rightarrow> Inl ValueError | Some n \<Rightarrow> Inr n))"

text \<open>\<^verbatim>\<open>str(n)\<close> for an integer, as the f-strings of lines 301 and 335 format it.\<close>

fun str_of_nat :: "nat \<Rightarrow> string" where
  "str_of_nat n =
     (if n < 10 then [''0123456789'' ! n]
      else str_of_nat (n div 10) @ [''0123456789'' ! (n mod 10)])"

definition str_of_int :: "int \<Rightarrow> string" where
  "str_of_int i = (if i < 0 then CHR ''-'' # str_of_nat (nat (- i)) else str_of_nat (nat i))"

text \<open>\<^verbatim>\<open>s.zfill(width)\<close>: zeros on the left, after a leading sign.\<close>

definition zfill :: "nat \<Rightarrow> string \<Rightarrow> string" where
  "zfill width s =
     (if width \<le> length s then s
      else
        (case s of
           [] \<Rightarrow> replicate width CHR ''0''
         | c # cs \<Rightarrow>
             if c = CHR ''+'' \<or> c = CHR ''-''
             then c # replicate (width - length s) CHR ''0'' @ cs
             else replicate (width - length s) CHR ''0'' @ s))"

text \<open>Python's slices \<^verbatim>\<open>s[:4]\<close> and \<^verbatim>\<open>s[5:7]\<close>.\<close>

definition year_part :: "string \<Rightarrow> string" where
  "year_part d = take 4 d"

definition month_part :: "string \<Rightarrow> string" where
  "month_part d = take 2 (drop 5 d)"

section \<open>The identifier resolver (lines 41-75)\<close>

text \<open>\<^verbatim>\<open>response.raise_for_status()\<close> raises on the status codes 400 to 599.\<close>

definition raises_for_status :: "response \<Rightarrow> bool" where
  "raises_for_status r = (400 \<le> status_code r \<and> status_code r < 600)"

definition SEC_EDGAR_CIK_LOOKUP :: string where
  "SEC_EDGAR_CIK_LOOKUP = ''https://www.sec.gov/files/company_tickers.json''"

definition add_ticker :: "string \<times> string \<Rightarrow> (string \<rightharpoonup> string) \<Rightarrow> (string \<rightharpoonup> string)" where
  "add_ticker entry m = (case entry of (ticker, cik_str) \<Rightarrow> m(upper ticker \<mapsto> zfill 10 cik_str))"

definition load_cik_lookup :: "env \<Rightarrow> state \<Rightarrow> state" where
  "load_cik_lookup e s =
     (case http_get e SEC_EDGAR_CIK_LOOKUP s of
        (Inl err, s1) \<Rightarrow> s1\<lparr>cik_lookup := Map.empty\<rparr>
      | (Inr response, s1) \<Rightarrow>
          if raises_for_status response then s1\<lparr>cik_lookup := Map.empty\<rparr>
          else
            (case json_tickers e (resp_text response) of
               Inl err \<Rightarrow> s1\<lparr>cik_lookup := Map.empty\<rparr>
             | Inr entries \<Rightarrow> s1\<lparr>cik_lookup := fold add_ticker entries (cik_lookup s1)\<rparr>))"

text \<open>
  \<^verbatim>\<open>re.search(r'CIK=(\d+)', text)\<close>: the digits after the first \<^verbatim>\<open>CIK=\<close> that is followed
  by a digit.
\<close>

fun re_search_cik :: "string \<Rightarrow> string option" where
  "re_search_cik [] = None"
| "re_search_cik (c # cs) =
     (if startswith (c # cs) ''CIK='' \<and> takeWhile is_digit (drop 4 (c # cs)) \<noteq> []
      then Some (takeWhile is_digit (drop 4 (c # cs)))
      else re_search_cik cs)"

definition search_url :: "string \<Rightarrow> string" where
  "search_url ticker =
     ''https://www.sec.gov/cgi-bin/browse-edgar?action=getcompany&company='' @ ticker
       @ ''&type=&dateb=&owner=exclude&count=100&search_text=&CIK=&myHID=''"

definition get_cik :: "env \<Rightarrow> string \<Rightarrow> state \<Rightarrow> string option \<times> state" where
  "get_cik e ticker s =
     (let ticker_upper = upper ticker in
      case cik_lookup s ticker_upper of
        Some cik \<Rightarrow> (Some cik, s)
      | None \<Rightarrow>
          (case http_get e (search_url ticker) s of
             (Inl err, s1) \<Rightarrow> (None, s1)
           | (Inr response, s1) \<Rightarrow>
               if raises_for_status response then (None, s1)
               else
                 (case re_search_cik (resp_text response) of
                    None \<Rightarrow> (None, s1)
                  | Some digits \<Rightarrow>
                      (case py_int digits of
                         Inl err \<Rightarrow> (None, s1)
                       | Inr n \<Rightarrow>
                           (let cik = zfill 10 (str_of_int n) in
                            (Some cik, s1\<lparr>cik_lookup := (cik_lookup s1)(ticker_upper \<mapsto> cik)\<rparr>))))))"

section \<open>The filing index reader (lines 77-107)\<close>

definition submissions_url :: "string \<Rightarrow> string" where
  "submissions_url cik = ''https://data.sec.gov/submissions/CIK'' @ cik @ ''.json''"

text \<open>One turn of the loop of lines 94-102.\<close>

definition index_entry :: "string \<Rightarrow> recent \<Rightarrow> nat \<times> string \<Rightarrow> filing list" where
  "index_entry filing_type r entry =
     (case entry of (i, frm) \<Rightarrow>
        if frm = filing_type
           \<and> i < length (accessionNumber r) \<and> i < length (filingDate r)
           \<and> i < length (reportDate r)
        then [\<lparr>accession_number = accessionNumber r ! i, filing_date = filingDate r ! i,
               report_date = reportDate r ! i, form_type = frm\<rparr>]
        else [])"

definition get_filings_metadata ::
  "env \<Rightarrow> string \<Rightarrow> string \<Rightarrow> state \<Rightarrow> filing list \<times> state"
where
  "get_filings_metadata e cik filing_type s =
     (case http_get e (submissions_url cik) s of
        (Inl err, s1) \<Rightarrow> ([], s1)
      | (Inr response, s1) \<Rightarrow>
          if raises_for_status response then ([], s1)
          else
            (case json_recent e (resp_text response) of
               Inl err \<Rightarrow> ([], s1)
             | Inr None \<Rightarrow> ([], s1)
             | Inr (Some r) \<Rightarrow>
                 (concat (map (index_entry filing_type r) (enumerate 0 (form r))), s1)))"


section \<open>Selecting and saving filings (lines 211-317)\<close>

text \<open>
  Line 241 reads \<^verbatim>\<open>datetime.now(datetime.timezone.utc).year\<close>. Line 5 binds the name
  \<^verbatim>\<open>datetime\<close> to the class \<^verbatim>\<open>datetime.datetime\<close>, so \<^verbatim>\<open>datetime.timezone\<close> is an
  attribute lookup on that class. The argument is evaluated before \<^verbatim>\<open>now\<close> is called: a
  missing attribute raises \<^verbatim>\<open>AttributeError\<close> and the clock is never read. The public
  attributes of the class are listed; \<^verbatim>\<open>timezone\<close> is an attribute of the module, not of
  the class.
\<close>

definition datetime_class_attrs :: "string list" where
  "datetime_class_attrs =
     [''astimezone'', ''combine'', ''ctime'', ''date'', ''day'', ''dst'', ''fold'',
      ''fromisocalendar'', ''fromisoformat'', ''fromordinal'', ''fromtimestamp'', ''hour'',
      ''isocalendar'', ''isoformat'', ''isoweekday'', ''max'', ''microsecond'', ''min'',
      ''minute'', ''month'', ''now'', ''replace'', ''resolution'', ''second'', ''strftime'',
      ''strptime'', ''time'', ''timestamp'', ''timetuple'', ''timetz'', ''today'', ''toordinal'',
      ''tzinfo'', ''tzname'', ''utcfromtimestamp'', ''utcnow'', ''utcoffset'', ''utctimetuple'',
      ''weekday'', ''year'']"

definition current_year :: "env \<Rightarrow> py_error + int" where
  "current_year e =
     (if ''timezone'' \<in> set datetime_class_attrs then Inr (utc_year e) else Inl AttributeError)"

text \<open>\<^verbatim>\<open>range(a, b)\<close>, and the set of line 250 or 252.\<close>

definition py_range :: "int \<Rightarrow> int \<Rightarrow> int list" where
  "py_range a b = [a..b - 1]"

definition LAST_N_YEARS :: int where
  "LAST_N_YEARS = 10"

definition years_to_include :: "int option \<Rightarrow> int \<Rightarrow> int set" where
  "years_to_include year cy =
     (case year of
        Some y \<Rightarrow> {y}
      | None \<Rightarrow> set (py_range (cy - (LAST_N_YEARS - 1)) (cy + 1)))"

text \<open>The quarter of line 273 and the quarter of line 299.\<close>

definition filing_quarter :: "int \<Rightarrow> int" where
  "filing_quarter report_month = (report_month - 1) div 3 + 1"

definition quarter_num :: "int \<Rightarrow> int" where
  "quarter_num report_month = (report_month - 1) div 3 + 1"

text \<open>One turn of the loop of lines 254-275, on \<^verbatim>\<open>matching_filings\<close>.\<close>

definition select_step ::
  "string \<Rightarrow> int set \<Rightarrow> int option \<Rightarrow> filing \<Rightarrow> filing list \<Rightarrow> filing list"
where
  "select_step filing_type years quarter f matching =
     (case py_int (year_part (filing_date f)) of
        Inl err \<Rightarrow> matching
      | Inr filing_year \<Rightarrow>
          if filing_year \<notin> years then matching
          else if filing_type = ''10-K'' then matching @ [f]
          else
            (case quarter of
               None \<Rightarrow> matching @ [f]
             | Some q \<Rightarrow>
                 (case py_int (month_part (report_date f)) of
                    Inl err \<Rightarrow> matching
                  | Inr report_month \<Rightarrow>
                      if filing_quarter report_month = q then matching @ [f] else matching)))"

text \<open>Lines 243-275: the value of \<^verbatim>\<open>matching_filings\<close>, once line 241 has given a year.\<close>

definition select_filings ::
  "string \<Rightarrow> int option \<Rightarrow> int option \<Rightarrow> bool \<Rightarrow> int \<Rightarrow> filing list \<Rightarrow> filing list"
where
  "select_filings filing_type year quarter download_all cy filings =
     (if download_all then filings
      else fold (select_step filing_type (years_to_include year cy) quarter) filings [])"

text \<open>
  Lines 293-302: the file name and the output folder. The \<^verbatim>\<open>int\<close> of line 298 stands
  outside every \<^verbatim>\<open>try\<close>.
\<close>

definition derive_filename ::
  "state \<Rightarrow> string \<Rightarrow> string \<Rightarrow> filing \<Rightarrow> py_error + string \<times> path option"
where
  "derive_filename s ticker filing_type mf =
     (if filing_type = ''10-K'' then
        Inr (''10K-'' @ upper ticker @ ''-'' @ year_part (filing_date mf) @ ''.txt'',
             output_folder_10k s)
      else
        (case py_int (month_part (report_date mf)) of
           Inl err \<Rightarrow> Inl err
         | Inr report_month \<Rightarrow>
             Inr (''10Q-'' @ upper ticker @ ''-Q'' @ str_of_int (quarter_num report_month)
                    @ year_part (filing_date mf) @ ''.txt'',
                  output_folder_10q s)))"

text \<open>
  The body of the \<^verbatim>\<open>try\<close> of lines 304-312. With no output folder, \<^verbatim>\<open>None / str\<close> raises
  \<^verbatim>\<open>TypeError\<close>.
\<close>

definition save_file ::
  "env \<Rightarrow> path option \<Rightarrow> string \<Rightarrow> string \<Rightarrow> string \<Rightarrow> state \<Rightarrow> (py_error + path) \<times> state"
where
  "save_file e output_folder ticker filename filing_text s =
     (case output_folder of
        None \<Rightarrow> (Inl TypeError, s)
      | Some folder \<Rightarrow>
          (let ticker_dir = path_join folder (upper ticker);
               original_dir = path_join ticker_dir ''original''
           in if mkdir_fails e original_dir then (Inl OSError, s)
              else
                (let s1 = s\<lparr>dirs_made := dirs_made s @ [original_dir]\<rparr>;
                     output_path = path_join original_dir filename
                 in if write_fails e output_path then (Inl OSError, s1)
                    else (Inr output_path,
                          s1\<lparr>files_written := files_written s1 @ [(output_path, filing_text)]\<rparr>))))"

text \<open>The loop of lines 282-315, on \<^verbatim>\<open>all_successful\<close>.\<close>

fun download_loop ::
  "env \<Rightarrow> string \<Rightarrow> string \<Rightarrow> string \<Rightarrow> filing list \<Rightarrow> bool \<Rightarrow> state \<Rightarrow> (py_error + bool) \<times> state"
where
  "download_loop e ticker filing_type cik [] all_successful s = (Inr all_successful, s)"
| "download_loop e ticker filing_type cik (mf # rest) all_successful s =
     (case fetch_filing_from_edgar e cik (accession_number mf) s of
        (filing_text, s1) \<Rightarrow>
          (case filing_text of
             None \<Rightarrow> download_loop e ticker filing_type cik rest False s1
           | Some txt \<Rightarrow>
               if txt = [] then download_loop e ticker filing_type cik rest False s1
               else
                 (case derive_filename s1 ticker filing_type mf of
                    Inl err \<Rightarrow> (Inl err, s1)
                  | Inr (filename, output_folder) \<Rightarrow>
                      (case save_file e output_folder ticker filename txt s1 of
                         (Inl err, s2) \<Rightarrow> download_loop e ticker filing_type cik rest False s2
                       | (Inr output_path, s2) \<Rightarrow>
                           download_loop e ticker filing_type cik rest all_successful s2))))"

definition download_filing ::
  "env \<Rightarrow> string \<Rightarrow> string \<Rightarrow> int option \<Rightarrow> int option \<Rightarrow> bool \<Rightarrow> state
     \<Rightarrow> (py_error + bool) \<times> state"
where
  "download_filing e ticker filing_type year quarter download_all s =
     (if filing_type \<notin> set [''10-K'', ''10-Q''] then (Inr False, s)
      else if filing_type = ''10-Q'' \<and> quarter \<noteq> None
              \<and> quarter \<notin> set [Some 1, Some 2, Some 3, Some 4] then (Inr False, s)
      else
        (case get_cik e ticker s of
           (cik_opt, s1) \<Rightarrow>
             (case cik_opt of
                None \<Rightarrow> (Inr False, s1)
              | Some cik \<Rightarrow>
                  if cik = [] then (Inr False, s1)
                  else
                    (case get_filings_metadata e cik filing_type s1 of
                       (filings, s2) \<Rightarrow>
                         if filings = [] then (Inr False, s2)
                         else
                           (case current_year e of
                              Inl err \<Rightarrow> (Inl err, s2)
                            | Inr cy \<Rightarrow>
                                (let matching_filings =
                                       select_filings filing_type year quarter download_all cy
                                         filings
                                 in if matching_filings = [] then (Inr False, s2)
                                    else download_loop e ticker filing_type cik matching_filings
                                           True s2))))))"


section \<open>The batch (lines 319-341) and the constructor (lines 23-39)\<close>

text \<open>
  The result dictionary maps a key to the outcome of its unit. No call of
  \<^verbatim>\<open>download_filing\<close> stands in a \<^verbatim>\<open>try\<close>: an exception it raises ends the batch.
\<close>

type_synonym results = "string \<rightharpoonup> bool"

text \<open>The loop of lines 334-336.\<close>

fun batch_years ::
  "env \<Rightarrow> string \<Rightarrow> string \<Rightarrow> int list \<Rightarrow> results \<Rightarrow> state \<Rightarrow> (py_error + results) \<times> state"
where
  "batch_years e ticker filing_type [] results s = (Inr results, s)"
| "batch_years e ticker filing_type (year # rest) results s =
     (let key = ticker @ ''-'' @ filing_type @ ''-'' @ str_of_int year in
      case download_filing e ticker filing_type (Some year) None False s of
        (Inl err, s1) \<Rightarrow> (Inl err, s1)
      | (Inr ok, s1) \<Rightarrow> batch_years e ticker filing_type rest (results(key \<mapsto> ok)) s1)"

text \<open>The loop of lines 329-339; an absent or empty list of years is false at line 333.\<close>

fun batch_types ::
  "env \<Rightarrow> string \<Rightarrow> string list \<Rightarrow> int list option \<Rightarrow> bool \<Rightarrow> results \<Rightarrow> state
     \<Rightarrow> (py_error + results) \<times> state"
where
  "batch_types e ticker [] years download_all results s = (Inr results, s)"
| "batch_types e ticker (filing_type # rest) years download_all results s =
     (if download_all then
        (case download_filing e ticker filing_type None None True s of
           (Inl err, s1) \<Rightarrow> (Inl err, s1)
         | (Inr ok, s1) \<Rightarrow>
             batch_types e ticker rest years download_all
               (results(ticker @ ''-'' @ filing_type @ ''-all'' \<mapsto> ok)) s1)
      else if years \<noteq> None \<and> years \<noteq> Some [] then
        (case batch_years e ticker filing_type (case years of Some ys \<Rightarrow> ys | None \<Rightarrow> []) results s of
           (Inl err, s1) \<Rightarrow> (Inl err, s1)
         | (Inr results', s1) \<Rightarrow> batch_types e ticker rest years download_all results' s1)
      else
        (case download_filing e ticker filing_type None None False s of
           (Inl err, s1) \<Rightarrow> (Inl err, s1)
         | (Inr ok, s1) \<Rightarrow>
             batch_types e ticker rest years download_all
               (results(ticker @ ''-'' @ filing_type \<mapsto> ok)) s1))"

text \<open>The loop of line 328.\<close>

fun batch_tickers ::
  "env \<Rightarrow> string list \<Rightarrow> string list \<Rightarrow> int list option \<Rightarrow> bool \<Rightarrow> results \<Rightarrow> state
     \<Rightarrow> (py_error + results) \<times> state"
where
  "batch_tickers e [] filing_types years download_all results s = (Inr results, s)"
| "batch_tickers e (ticker # rest) filing_types years download_all results s =
     (case batch_types e ticker filing_types years download_all results s of
        (Inl err, s1) \<Rightarrow> (Inl err, s1)
      | (Inr results', s1) \<Rightarrow> batch_tickers e rest filing_types years download_all results' s1)"

definition download_batch ::
  "env \<Rightarrow> string list \<Rightarrow> string list \<Rightarrow> int list option \<Rightarrow> bool \<Rightarrow> state
     \<Rightarrow> (py_error + results) \<times> state"
where
  "download_batch e tickers filing_types years download_all s =
     batch_tickers e tickers filing_types years download_all Map.empty s"

text \<open>
  \<^verbatim>\<open>Path(x) if x else None\<close> of lines 31-32: \<^verbatim>\<open>None\<close> and the empty string are false.
\<close>

definition path_if_given :: "string option \<Rightarrow> path option" where
  "path_if_given x = (if falsy x then None else map_option Path x)"

text \<open>
  Lines 33-36: a \<^verbatim>\<open>Path\<close> is always true, so each folder that is set is made;
  \<^verbatim>\<open>mkdir\<close> may raise.
\<close>

definition make_folder :: "env \<Rightarrow> path option \<Rightarrow> state \<Rightarrow> py_error + state" where
  "make_folder e folder s =
     (case folder of
        None \<Rightarrow> Inr s
      | Some p \<Rightarrow>
          if mkdir_fails e p then Inl OSError else Inr (s\<lparr>dirs_made := dirs_made s @ [p]\<rparr>))"

text \<open>
  The constructor, from a world in which the program has done nothing yet. \<open>Inl\<close> is the
  exception it raises, \<open>Inr\<close> the object it builds.
\<close>

definition init :: "env \<Rightarrow> string option \<Rightarrow> string option \<Rightarrow> string option \<Rightarrow> py_error + state" where
  "init e folder_10k folder_10q folder =
     (if folder_10k = None \<and> folder_10q = None \<and> folder = None then Inl ValueError
      else
        (let s0 =
               (if folder_10k = None \<and> folder_10q = None then
                  \<lparr>output_folder_10k = map_option Path folder,
                   output_folder_10q = map_option Path folder,
                   cik_lookup = Map.empty, requests_made = [], dirs_made = [],
                   files_written = []\<rparr>
                else
                  \<lparr>output_folder_10k = path_if_given folder_10k,
                   output_folder_10q = path_if_given folder_10q,
                   cik_lookup = Map.empty, requests_made = [], dirs_made = [],
                   files_written = []\<rparr>)
         in case make_folder e (output_folder_10k s0) s0 of
              Inl err \<Rightarrow> Inl err
            | Inr s1 \<Rightarrow>
                (case make_folder e (output_folder_10q s1) s1 of
                   Inl err \<Rightarrow> Inl err
                 | Inr s2 \<Rightarrow> Inr (load_cik_lookup e s2))))"

text \<open>The entry point of lines 343-357.\<close>

definition download_sec_filings ::
  "env \<Rightarrow> string list \<Rightarrow> string option \<Rightarrow> string option \<Rightarrow> string option \<Rightarrow> string list
     \<Rightarrow> int list option \<Rightarrow> bool \<Rightarrow> py_error + results"
where
  "download_sec_filings e tickers folder_10k folder_10q folder filing_types years download_all =
     (case init e folder_10k folder_10q folder of
        Inl err \<Rightarrow> Inl err
      | Inr downloader \<Rightarrow> fst (download_batch e tickers filing_types years download_all downloader))"


section \<open>The selection rule in the words of the specification\<close>

text \<open>
  The rule of the specification for the policies other than "all": a filing is included
  when the year of its filing date is one of the years to include and, for a quarterly
  request with a quarter, the quarter derived from its report date is that quarter; a date
  that does not parse excludes the filing.
\<close>

definition spec_includes :: "string \<Rightarrow> int set \<Rightarrow> int option \<Rightarrow> filing \<Rightarrow> bool" where
  "spec_includes filing_type years quarter f =
     (case py_int (year_part (filing_date f)) of
        Inl err \<Rightarrow> False
      | Inr y \<Rightarrow>
          y \<in> years
          \<and> (filing_type = ''10-K''
             \<or> (case quarter of
                   None \<Rightarrow> True
                 | Some q \<Rightarrow>
                     (case py_int (month_part (report_date f)) of
                        Inl err \<Rightarrow> False
                      | Inr m \<Rightarrow> (m - 1) div 3 + 1 = q))))"

text \<open>
  The rule of the specification for the primary document. The file name of a link is what
  follows its last slash, in lower case (line 131). A candidate is preferred when its file
  name does not contain \<^verbatim>\<open>exhibit\<close> and is not a short name (fewer than 10 characters)
  beginning with \<^verbatim>\<open>r\<close>. The choice is the first preferred candidate, else the first
  candidate named \<^verbatim>\<open>r1.htm\<close>, else the first candidate, else nothing.
\<close>

definition link_filename :: "string \<Rightarrow> string" where
  "link_filename href = lower (last (split_char CHR ''/'' href))"

definition preferred :: "string \<Rightarrow> bool" where
  "preferred href =
     (\<not> contains ''exhibit'' (link_filename href)
      \<and> \<not> (startswith (link_filename href) ''r'' \<and> length (link_filename href) < 10))"

definition first_of :: "'a list \<Rightarrow> 'a option" where
  "first_of xs = (case xs of [] \<Rightarrow> None | x # rest \<Rightarrow> Some x)"

definition spec_choice :: "(string \<Rightarrow> bool) \<Rightarrow> string list \<Rightarrow> string option" where
  "spec_choice candidate hrefs =
     (let cs = filter candidate hrefs in
      case first_of (filter preferred cs) of
        Some p \<Rightarrow> Some p
      | None \<Rightarrow>
          (case first_of (filter (\<lambda>h. link_filename h = ''r1.htm'') cs) of
             Some r \<Rightarrow> Some r
           | None \<Rightarrow> first_of cs))"

text \<open>
  The candidates in the words of the specification: the links into the archive whose file
  name, in lower case, contains \<^verbatim>\<open>.htm\<close>, but not \<^verbatim>\<open>index\<close>, and whose path does not
  contain \<^verbatim>\<open>/search\<close>.
\<close>

definition spec_candidate :: "string \<Rightarrow> bool" where
  "spec_candidate href =
     (contains ''/Archives/edgar'' href \<and> contains ''.htm'' (link_filename href)
      \<and> \<not> contains ''index'' (link_filename href) \<and> \<not> contains ''/search'' href)"

text \<open>
  The candidates of line 130: \<^verbatim>\<open>.htm\<close> is looked for in the whole link, in lower case, not
  in its file name only.
\<close>

definition href_candidate :: "string \<Rightarrow> bool" where
  "href_candidate href =
     (contains ''/Archives/edgar'' href \<and> contains ''.htm'' (lower href)
      \<and> \<not> contains ''index'' (link_filename href) \<and> \<not> contains ''/search'' href)"

text \<open>
  The words of the specification for the clean-up of the lines: the lines that are not
  blank, with the whitespace at their end removed; the marker of the filing body; and the
  lines that the two later filters of lines 188-193 drop.
\<close>

definition nonblank_lines :: "string list \<Rightarrow> string list" where
  "nonblank_lines ls = filter (\<lambda>l. l \<noteq> []) (map rstrip ls)"

definition has_marker :: "string \<Rightarrow> bool" where
  "has_marker line = contains ''UNITED STATES'' line"

definition dropped_later :: "string \<Rightarrow> bool" where
  "dropped_later line = (is_xbrl_ref line \<or> is_ns_token line)"

text \<open>
  The path under which one filing is written: lines 293-302 followed by the body of the
  \<^verbatim>\<open>try\<close> of lines 304-312, as one turn of the loop of line 282 runs them. \<open>None\<close> when
  nothing is written (line 298 raises, or the \<^verbatim>\<open>try\<close> fails).
\<close>

definition written_path ::
  "env \<Rightarrow> state \<Rightarrow> string \<Rightarrow> string \<Rightarrow> filing \<Rightarrow> string \<Rightarrow> path option"
where
  "written_path e s ticker filing_type mf txt =
     (case derive_filename s ticker filing_type mf of
        Inl err \<Rightarrow> None
      | Inr (filename, output_folder) \<Rightarrow>
          (case fst (save_file e output_folder ticker filename txt s) of
             Inl err \<Rightarrow> None
           | Inr output_path \<Rightarrow> Some output_path))"

section \<open>Example inputs\<close>

text \<open>
  A world in which every request is answered with status 200: the ticker table knows the
  symbol \<^verbatim>\<open>ZT\<close>, the index lists one annual and one quarterly report, the archive directory
  lists an exhibit and a viewer page, and the document is a short placeholder.
\<close>

definition example_recent :: recent where
  "example_recent =
     \<lparr>form = [''10-K'', ''10-Q''],
      accessionNumber = [''0001234567-22-000001'', ''0001234567-22-000002''],
      filingDate = [''2022-02-15'', ''2022-06-15''],
      reportDate = [''2021-12-31'', ''2022-05-31'']\<rparr>"

definition example_env :: env where
  "example_env =
     \<lparr>requests_get = (\<lambda>url. Inr \<lparr>status_code = 200, resp_text = url\<rparr>),
      json_tickers = (\<lambda>body. Inr [(''zt'', ''1234'')]),
      json_recent = (\<lambda>body. Inr (Some example_recent)),
      soup_hrefs = (\<lambda>body. Inr [''/Archives/edgar/data/1234/000123456722000001/exhibit99.htm'',
                                ''/Archives/edgar/data/1234/000123456722000001/R1.htm'']),
      soup_text = (\<lambda>body. Inr ''UNITED STATES''),
      mkdir_fails = (\<lambda>p. False),
      write_fails = (\<lambda>p. False),
      utc_year = 2026\<rparr>"

definition example_annual :: filing where
  "example_annual =
     \<lparr>accession_number = ''0001234567-22-000001'', filing_date = ''2022-02-15'',
      report_date = ''2021-12-31'', form_type = ''10-K''\<rparr>"

definition example_quarterly :: filing where
  "example_quarterly =
     \<lparr>accession_number = ''0001234567-22-000002'', filing_date = ''2022-06-15'',
      report_date = ''2022-05-31'', form_type = ''10-Q''\<rparr>"

text \<open>The same world with a document of 5013 characters.\<close>

definition example_long_doc :: string where
  "example_long_doc = ''UNITED STATES'' @ replicate 5000 CHR ''x''"

definition example_env_long :: env where
  "example_env_long = example_env\<lparr>soup_text := (\<lambda>body. Inr example_long_doc)\<rparr>"

text \<open>The downloader as the constructor leaves it when both folders are given.\<close>

definition example_state :: state where
  "example_state =
     \<lparr>output_folder_10k = Some [''out/10K''], output_folder_10q = Some [''out/10Q''],
      cik_lookup = [''ZT'' \<mapsto> ''0000001234''],
      requests_made = [SEC_EDGAR_CIK_LOOKUP],
      dirs_made = [[''out/10K''], [''out/10Q'']],
      files_written = []\<rparr>"

section \<open>Evaluation\<close>

lemmas string_simps =
  strip_def lstrip_def rstrip_def is_space_def is_digit_def digit_val_def
  upper_def lower_def upper_char_def lower_char_def year_part_def month_part_def

lemmas example_simps =
  example_env_def example_recent_def example_annual_def example_quarterly_def
  example_state_def

section \<open>The derived quarter\<close>

text \<open>
  C3. For every month from 1 to 12 the derived quarter is \<open>(m - 1) div 3 + 1\<close> and is one
  of 1, 2, 3, 4. The quarter that filters the quarterly filings (line 273) and the quarter
  written into the file name (line 299) are the same function of the month, so a filing that
  the selector keeps for quarter \<open>q\<close> is saved under a name that carries \<open>q\<close>.
\<close>

theorem quarter_derivation:
  "(\<forall>m \<in> {1..12}. filing_quarter m = (m - 1) div 3 + 1 \<and> filing_quarter m \<in> {1, 2, 3, 4})
   \<and> (\<forall>m. quarter_num m = filing_quarter m)
   \<and> (\<forall>ys q f s tk. select_step ''10-Q'' ys (Some q) f [] = [f] \<longrightarrow>
         derive_filename s tk ''10-Q'' f =
           Inr (''10Q-'' @ upper tk @ ''-Q'' @ str_of_int q @ year_part (filing_date f) @ ''.txt'',
                output_folder_10q s))"
proof (intro conjI ballI allI impI)
  fix m :: int
  assume "m \<in> {1..12}"
  show "filing_quarter m = (m - 1) div 3 + 1"
    by (simp add: filing_quarter_def)
next
  fix m :: int
  assume "m \<in> {1..12}"
  then have "1 \<le> m" "m \<le> 12"
    by auto
  then have "0 \<le> (m - 1) div 3" "(m - 1) div 3 \<le> 3"
    by auto
  then have "(m - 1) div 3 \<in> {0, 1, 2, 3}"
    by auto
  then show "filing_quarter m \<in> {1, 2, 3, 4}"
    by (auto simp add: filing_quarter_def)
next
  fix m
  show "quarter_num m = filing_quarter m"
    by (simp add: quarter_num_def filing_quarter_def)
next
  fix ys q f s tk
  assume "select_step ''10-Q'' ys (Some q) f [] = [f]"
  then obtain m where "py_int (month_part (report_date f)) = Inr m" "filing_quarter m = q"
    by (auto simp: select_step_def split: sum.splits if_splits)
  then show "derive_filename s tk ''10-Q'' f =
           Inr (''10Q-'' @ upper tk @ ''-Q'' @ str_of_int q @ year_part (filing_date f) @ ''.txt'',
                output_folder_10q s)"
    by (simp add: derive_filename_def quarter_num_def filing_quarter_def)
qed

theorem quarter_derivation_witness:
  "(5 :: int) \<in> {1..12} \<and> filing_quarter 5 = 2 \<and> quarter_num 5 = 2
   \<and> select_step ''10-Q'' {2022} (Some 2) example_quarterly [] = [example_quarterly]
   \<and> derive_filename example_state ''zt'' ''10-Q'' example_quarterly =
       Inr (''10Q-ZT-Q22022.txt'', Some [''out/10Q''])"
proof -
  have sel: "select_step ''10-Q'' {2022} (Some 2) example_quarterly [] = [example_quarterly]"
    by (simp add: select_step_def example_simps string_simps py_int_def filing_quarter_def)
  have m: "(5 :: int) \<in> {1..12}"
    by simp
  have "filing_quarter 5 = 2" "quarter_num 5 = 2"
    using quarter_derivation m by auto
  moreover have "derive_filename example_state ''zt'' ''10-Q'' example_quarterly =
      Inr (''10Q-'' @ upper ''zt'' @ ''-Q'' @ str_of_int 2
             @ year_part (filing_date example_quarterly) @ ''.txt'',
           output_folder_10q example_state)"
    using quarter_derivation sel by blast
  ultimately show ?thesis
    using sel m by (simp add: example_simps string_simps str_of_int_def)
qed


section \<open>The constructor\<close>

lemma load_cik_lookup_folders:
  "output_folder_10k (load_cik_lookup e s) = output_folder_10k s"
  "output_folder_10q (load_cik_lookup e s) = output_folder_10q s"
  by (auto simp: load_cik_lookup_def http_get_def split: sum.splits prod.splits)

text \<open>
  C9. With no folder at all the constructor raises \<^verbatim>\<open>ValueError\<close>. With the shared folder
  only, both output roots are that folder. With one of the two category folders given, the
  root of the other category is left unset. In each of these cases the constructor does
  return an object when the folder can be made.
\<close>

theorem init_folders:
  "init e None None None = Inl ValueError
   \<and> (\<forall>s. init e None None (Some f) = Inr s \<longrightarrow>
         output_folder_10k s = Some (Path f) \<and> output_folder_10q s = Some (Path f))
   \<and> (\<not> mkdir_fails e (Path f) \<longrightarrow> (\<exists>s. init e None None (Some f) = Inr s))
   \<and> (\<forall>s. init e (Some k) None other = Inr s \<longrightarrow> output_folder_10q s = None)
   \<and> (\<forall>s. init e None (Some q) other = Inr s \<longrightarrow> output_folder_10k s = None)
   \<and> (\<not> mkdir_fails e (Path k) \<longrightarrow> (\<exists>s. init e (Some k) None other = Inr s))
   \<and> (\<not> mkdir_fails e (Path q) \<longrightarrow> (\<exists>s. init e None (Some q) other = Inr s))"
proof (intro conjI allI impI)
  show "init e None None None = Inl ValueError"
    by (simp add: init_def)
next
  fix s assume "init e None None (Some f) = Inr s"
  then show "output_folder_10k s = Some (Path f)"
    by (auto simp: init_def make_folder_def load_cik_lookup_folders Let_def split: if_splits)
next
  fix s assume "init e None None (Some f) = Inr s"
  then show "output_folder_10q s = Some (Path f)"
    by (auto simp: init_def make_folder_def load_cik_lookup_folders Let_def split: if_splits)
next
  assume "\<not> mkdir_fails e (Path f)"
  then show "\<exists>s. init e None None (Some f) = Inr s"
    by (simp add: init_def make_folder_def Let_def)
next
  fix s assume "init e (Some k) None other = Inr s"
  then show "output_folder_10q s = None"
    by (auto simp: init_def make_folder_def path_if_given_def falsy_def load_cik_lookup_folders
             Let_def split: if_splits option.splits)
next
  fix s assume "init e None (Some q) other = Inr s"
  then show "output_folder_10k s = None"
    by (auto simp: init_def make_folder_def path_if_given_def falsy_def load_cik_lookup_folders
             Let_def split: if_splits option.splits)
next
  assume "\<not> mkdir_fails e (Path k)"
  then show "\<exists>s. init e (Some k) None other = Inr s"
    by (simp add: init_def make_folder_def path_if_given_def falsy_def Let_def
             split: option.splits)
next
  assume "\<not> mkdir_fails e (Path q)"
  then show "\<exists>s. init e None (Some q) other = Inr s"
    by (simp add: init_def make_folder_def path_if_given_def falsy_def Let_def
             split: option.splits)
qed

theorem init_folders_witness:
  "init example_env None None None = Inl ValueError
   \<and> (\<exists>s. init example_env None None (Some ''out'') = Inr s
          \<and> output_folder_10k s = Some [''out''] \<and> output_folder_10q s = Some [''out''])
   \<and> (\<exists>s. init example_env (Some ''out/10K'') None (Some ''out'') = Inr s
          \<and> output_folder_10k s = Some [''out/10K''] \<and> output_folder_10q s = None)"
proof -
  have nf: "\<not> mkdir_fails example_env (Path p)" for p
    by (simp add: example_env_def)
  obtain s1 where s1: "init example_env None None (Some ''out'') = Inr s1"
    using init_folders [of example_env "''out''"] nf by blast
  then have "output_folder_10k s1 = Some (Path ''out'')
      \<and> output_folder_10q s1 = Some (Path ''out'')"
    using init_folders [of example_env "''out''"] by blast
  moreover obtain s2 where s2: "init example_env (Some ''out/10K'') None (Some ''out'') = Inr s2"
    using init_folders [of example_env _ "''out/10K''" "Some ''out''"] nf by blast
  then have "output_folder_10q s2 = None"
    using init_folders [of example_env _ "''out/10K''" "Some ''out''"] by blast
  moreover have "output_folder_10k s2 = Some [''out/10K'']"
    using s2 by (auto simp: init_def make_folder_def path_if_given_def falsy_def Let_def Path_def
        load_cik_lookup_folders split: if_splits)
  moreover have "init example_env None None None = Inl ValueError"
    using init_folders by blast
  ultimately show ?thesis
    using s1 s2 by (simp add: Path_def)
qed

section \<open>The checks before the first request\<close>

text \<open>
  C10. A filing type other than \<^verbatim>\<open>10-K\<close> and \<^verbatim>\<open>10-Q\<close>, and a quarter outside 1 to 4 given
  with \<^verbatim>\<open>10-Q\<close>, make \<^verbatim>\<open>download_filing\<close> return \<^verbatim>\<open>False\<close> with the state as it was: no
  request is made, nothing is cached, made or written. With \<^verbatim>\<open>10-K\<close> the quarter is neither
  checked nor used: the call and the selection are the same for every quarter.
\<close>

theorem download_filing_rejects:
  "(filing_type \<noteq> ''10-K'' \<and> filing_type \<noteq> ''10-Q'' \<longrightarrow>
      download_filing e ticker filing_type year quarter download_all s = (Inr False, s))
   \<and> (q \<notin> {1, 2, 3, 4} \<longrightarrow>
        download_filing e ticker ''10-Q'' year (Some q) download_all s = (Inr False, s))
   \<and> download_filing e ticker ''10-K'' year quarter download_all s =
       download_filing e ticker ''10-K'' year quarter' download_all s
   \<and> select_filings ''10-K'' year quarter download_all cy filings =
       select_filings ''10-K'' year quarter' download_all cy filings"
proof (intro conjI impI)
  assume "filing_type \<noteq> ''10-K'' \<and> filing_type \<noteq> ''10-Q''"
  then show "download_filing e ticker filing_type year quarter download_all s = (Inr False, s)"
    by (simp add: download_filing_def)
next
  assume "q \<notin> {1, 2, 3, 4}"
  then show "download_filing e ticker ''10-Q'' year (Some q) download_all s = (Inr False, s)"
    by (simp add: download_filing_def)
next
  have step: "select_step ''10-K'' ys quarter = select_step ''10-K'' ys quarter'" for ys
    by (intro ext) (simp add: select_step_def split: sum.splits)
  then show sel: "select_filings ''10-K'' year quarter download_all cy filings =
       select_filings ''10-K'' year quarter' download_all cy filings" for cy filings
    by (simp add: select_filings_def)
  show "download_filing e ticker ''10-K'' year quarter download_all s =
       download_filing e ticker ''10-K'' year quarter' download_all s"
    using sel
    by (auto simp: download_filing_def Let_def split: prod.splits option.splits sum.splits)
qed

theorem download_filing_rejects_witness:
  "download_filing example_env ''ZT'' ''8-K'' (Some 2022) None False example_state
     = (Inr False, example_state)
   \<and> download_filing example_env ''ZT'' ''10-Q'' (Some 2022) (Some 5) False example_state
     = (Inr False, example_state)
   \<and> download_filing example_env ''ZT'' ''10-K'' (Some 2022) (Some 5) False example_state
     = download_filing example_env ''ZT'' ''10-K'' (Some 2022) None False example_state"
proof -
  have a: "''8-K'' \<noteq> ''10-K'' \<and> ''8-K'' \<noteq> ''10-Q''"
    by simp
  have b: "(5 :: int) \<notin> {1, 2, 3, 4}"
    by simp
  show ?thesis
    using a b
      download_filing_rejects [where filing_type = "''8-K''" and e = example_env
        and ticker = "''ZT''" and year = "Some 2022" and quarter = "None"
        and download_all = False and s = example_state and q = 5]
      download_filing_rejects [where e = example_env
        and ticker = "''ZT''" and year = "Some 2022" and quarter = "Some 5" and quarter' = None
        and download_all = False and s = example_state]
    by simp
qed


section \<open>The current year\<close>

text \<open>
  Line 241 raises on every call: the class \<^verbatim>\<open>datetime\<close> has no attribute
  \<^verbatim>\<open>timezone\<close>.
\<close>

lemma current_year_raises: "current_year e = Inl AttributeError"
  by (simp add: current_year_def datetime_class_attrs_def)

text \<open>
  Line 241 stands after the index is read and before the policy is looked at, outside
  every \<^verbatim>\<open>try\<close>. So a request that passes the checks, resolves its symbol and finds a
  filing of its type in the index raises \<^verbatim>\<open>AttributeError\<close>, whatever the policy, and no
  call of \<^verbatim>\<open>download_filing\<close> returns \<^verbatim>\<open>True\<close>.
\<close>

lemma download_filing_raises:
  assumes "filing_type = ''10-K'' \<or> filing_type = ''10-Q''"
    and "filing_type = ''10-Q'' \<Longrightarrow> quarter \<in> set [None, Some 1, Some 2, Some 3, Some 4]"
    and "get_cik e ticker s = (Some cik, s1)" and "cik \<noteq> []"
    and "get_filings_metadata e cik filing_type s1 = (filings, s2)" and "filings \<noteq> []"
  shows "download_filing e ticker filing_type year quarter download_all s
           = (Inl AttributeError, s2)"
  using assms by (auto simp: download_filing_def current_year_raises)

lemma download_filing_never_succeeds:
  "fst (download_filing e ticker filing_type year quarter download_all s) \<noteq> Inr True"
  by (auto simp: download_filing_def current_year_raises split: prod.splits option.splits)

lemma get_cik_example:
  "get_cik example_env ''ZT'' example_state = (Some ''0000001234'', example_state)"
  by (simp add: get_cik_def example_simps string_simps)

lemma index_example:
  "get_filings_metadata example_env ''0000001234'' ''10-K'' example_state =
     ([example_annual],
      example_state\<lparr>requests_made := [SEC_EDGAR_CIK_LOOKUP, submissions_url ''0000001234'']\<rparr>)"
  by (simp add: get_filings_metadata_def http_get_def raises_for_status_def index_entry_def
        enumerate_eq_zip example_simps)

section \<open>The selector\<close>

text \<open>
  Lines 243-275 by themselves compute the rule of the specification: given a current year,
  the loop keeps exactly the filings the rule includes, in the order of the index.
\<close>

lemma fold_select_step:
  "fold (select_step ft ys q) fs acc = acc @ filter (spec_includes ft ys q) fs"
  by (induction fs arbitrary: acc)
     (auto simp: select_step_def spec_includes_def filing_quarter_def
           split: sum.splits option.splits)

lemma years_to_include_window: "years_to_include None cy = {cy - 9..cy}"
  by (auto simp: years_to_include_def py_range_def LAST_N_YEARS_def)

lemma select_filings_spec:
  "select_filings ft year quarter False cy fs =
     filter (spec_includes ft (case year of Some y \<Rightarrow> {y} | None \<Rightarrow> {cy - 9..cy}) quarter) fs"
  by (cases year)
     (simp_all add: select_filings_def fold_select_step years_to_include_window,
      simp add: years_to_include_def)

text \<open>
  C2. The specification: under a policy other than "all" the selector includes a filing
  exactly when the year of its filing date is a year to include (and the derived quarter matches),
  in the order of the input. The program computes no selection: for the symbol \<^verbatim>\<open>ZT\<close>, the
  category \<^verbatim>\<open>10-K\<close> and the year 2022, with one annual report filed on 2022-02-15 in the
  index, the loop of lines 254-275 would keep that report, but the call raises
  \<^verbatim>\<open>AttributeError\<close> at line 241 before the loop is reached.
\<close>

theorem download_filing_year_raises:
  "select_filings ''10-K'' (Some 2022) None False (utc_year example_env) [example_annual]
     = [example_annual]
   \<and> download_filing example_env ''ZT'' ''10-K'' (Some 2022) None False example_state =
       (Inl AttributeError,
        example_state\<lparr>requests_made := [SEC_EDGAR_CIK_LOOKUP, submissions_url ''0000001234'']\<rparr>)"
proof
  show "select_filings ''10-K'' (Some 2022) None False (utc_year example_env) [example_annual]
     = [example_annual]"
    by (simp add: select_filings_def select_step_def years_to_include_def py_int_def
          example_simps string_simps)
  show "download_filing example_env ''ZT'' ''10-K'' (Some 2022) None False example_state =
       (Inl AttributeError,
        example_state\<lparr>requests_made := [SEC_EDGAR_CIK_LOOKUP, submissions_url ''0000001234'']\<rparr>)"
    by (simp add: download_filing_def get_cik_example index_example current_year_raises)
qed

text \<open>
  C4. The specification: under the policy "all" the selector returns the input list
  unchanged. Line 243 would do so, but line 241 stands before it: with \<^verbatim>\<open>download_all\<close>
  set and a non-empty index the call raises \<^verbatim>\<open>AttributeError\<close> and selects nothing.
\<close>

theorem download_filing_all_raises:
  "select_filings ''10-K'' None None True (utc_year example_env) [example_annual]
     = [example_annual]
   \<and> download_filing example_env ''ZT'' ''10-K'' None None True example_state =
       (Inl AttributeError,
        example_state\<lparr>requests_made := [SEC_EDGAR_CIK_LOOKUP, submissions_url ''0000001234'']\<rparr>)"
  by (simp add: select_filings_def download_filing_def get_cik_example index_example
        current_year_raises)

section \<open>The batch\<close>

text \<open>
  C5. The specification: a failure of one unit never aborts the batch, every unit reports
  its own outcome in the result mapping, and no exception reaches the caller of the batch.
  For the
  symbols \<^verbatim>\<open>ZT\<close> and \<^verbatim>\<open>AAPL\<close>, both categories and the year 2022, the first unit raises
  \<^verbatim>\<open>AttributeError\<close> at line 241; nothing catches it, so the batch ends there with the
  exception, without a result mapping and without a request for any later unit.
\<close>

theorem download_batch_aborts:
  "download_batch example_env [''ZT'', ''AAPL''] [''10-K'', ''10-Q''] (Some [2022]) False
     example_state =
       (Inl AttributeError,
        example_state\<lparr>requests_made := [SEC_EDGAR_CIK_LOOKUP, submissions_url ''0000001234'']\<rparr>)"
  by (simp add: download_batch_def download_filing_def get_cik_example index_example
        current_year_raises)


section \<open>The primary document\<close>

lemma href_candidate_nonempty: "href_candidate h \<Longrightarrow> h \<noteq> []"
  by (auto simp: href_candidate_def)

lemma scan_link_cases:
  "scan_link href (m, all) =
     (if href_candidate href
      then ((if preferred href \<and> falsy m then Some href else m), all @ [(link_filename href, href)])
      else (m, all))"
  by (cases "href = []") (auto simp: scan_link_def href_candidate_def preferred_def link_filename_def Let_def)

lemma fold_scan_link:
  "fold scan_link hrefs (m, all) =
     ((if falsy m then (case first_of (filter preferred (filter href_candidate hrefs)) of
                          None \<Rightarrow> m | Some p \<Rightarrow> Some p)
       else m),
      all @ map (\<lambda>h. (link_filename h, h)) (filter href_candidate hrefs))"
proof (induction hrefs arbitrary: m all)
  case Nil
  then show ?case by (simp add: first_of_def)
next
  case (Cons h hs)
  show ?case
  proof (cases "href_candidate h")
    case False
    then show ?thesis
      by (simp add: scan_link_cases Cons.IH)
  next
    case cand: True
    then have ne: "h \<noteq> []" by (rule href_candidate_nonempty)
    show ?thesis
    proof (cases "preferred h \<and> falsy m")
      case True
      then show ?thesis using cand ne
        by (simp add: scan_link_cases Cons.IH first_of_def falsy_def)
    next
      case False
      then show ?thesis using cand
        by (auto simp add: scan_link_cases Cons.IH first_of_def)
    qed
  qed
qed

lemma find_r1_map:
  "find_r1 (map (\<lambda>h. (link_filename h, h)) cs) =
     first_of (filter (\<lambda>h. link_filename h = ''r1.htm'') cs)"
  by (induction cs) (auto simp: first_of_def)

lemma first_of_mem: "first_of xs = Some x \<Longrightarrow> x \<in> set xs"
  by (cases xs) (auto simp: first_of_def)

lemma first_of_filter_nonempty: "first_of (filter P xs) = Some x \<Longrightarrow> xs \<noteq> []"
  by (cases xs) (auto simp: first_of_def)

lemma first_of_candidate:
  "first_of (filter P (filter href_candidate hs)) = Some x \<Longrightarrow> x \<noteq> []"
proof -
  assume "first_of (filter P (filter href_candidate hs)) = Some x"
  then have "x \<in> set (filter P (filter href_candidate hs))"
    by (rule first_of_mem)
  then have "href_candidate x" by simp
  then show ?thesis by (rule href_candidate_nonempty)
qed

lemma choose_main_doc_spec_choice: "choose_main_doc hrefs = spec_choice href_candidate hrefs"
proof -
  let ?cs = "filter href_candidate hrefs"
  have ne: "\<And>x. first_of ?cs = Some x \<Longrightarrow> x \<noteq> []"
    using first_of_candidate [of "\<lambda>h. True" hrefs] by simp
  show ?thesis
  proof (cases "first_of (filter preferred ?cs)")
    case (Some p)
    then have "p \<noteq> []" using first_of_candidate by blast
    then show ?thesis using Some
      by (simp add: choose_main_doc_def fold_scan_link spec_choice_def falsy_def)
  next
    case None
    show ?thesis
    proof (cases "first_of (filter (\<lambda>h. link_filename h = ''r1.htm'') ?cs)")
      case (Some r)
      then have "r \<noteq> []" using first_of_candidate by blast
      moreover have "?cs \<noteq> []" using Some by (rule first_of_filter_nonempty)
      ultimately show ?thesis using None Some
        by (simp add: choose_main_doc_def fold_scan_link spec_choice_def falsy_def find_r1_map)
    next
      case r: None
      show ?thesis
      proof (cases ?cs)
        case Nil
        then show ?thesis using None r
          by (simp add: choose_main_doc_def fold_scan_link spec_choice_def falsy_def find_r1_map first_of_def)
      next
        case (Cons c cs')
        then have "c \<noteq> []" using ne by (simp add: first_of_def)
        moreover have "first_of ?cs = Some c" using Cons by (simp add: first_of_def)
        moreover have "snd (hd (map (\<lambda>h. (link_filename h, h)) ?cs)) = c" using Cons by simp
        moreover have "?cs \<noteq> []" using Cons by simp
        ultimately show ?thesis using None r
          by (simp add: choose_main_doc_def fold_scan_link spec_choice_def falsy_def find_r1_map)
      qed
    qed
  qed
qed

text \<open>
  C1, as the program has it. The candidates are the links into the archive that contain
  \<^verbatim>\<open>.htm\<close> anywhere in the link (in lower case), whose file name does not contain
  \<^verbatim>\<open>index\<close> and whose path does not contain \<^verbatim>\<open>/search\<close>. Among them the extractor
  takes the first whose file name has no \<^verbatim>\<open>exhibit\<close> and is not a short name beginning
  with \<^verbatim>\<open>r\<close>; failing that the first named \<^verbatim>\<open>r1.htm\<close>; failing that the first candidate;
  and with no candidate it fails. A listing of \<^verbatim>\<open>exhibit99.htm\<close> and \<^verbatim>\<open>R1.htm\<close> yields
  \<^verbatim>\<open>R1.htm\<close>.
\<close>

theorem choose_main_doc_rule:
  "choose_main_doc hrefs = spec_choice href_candidate hrefs
   \<and> choose_main_doc [''/Archives/edgar/data/1234/000123456722000001/exhibit99.htm'',
                       ''/Archives/edgar/data/1234/000123456722000001/R1.htm'']
       = Some ''/Archives/edgar/data/1234/000123456722000001/R1.htm''"
proof
  show "choose_main_doc hrefs = spec_choice href_candidate hrefs"
    by (rule choose_main_doc_spec_choice)
  show "choose_main_doc [''/Archives/edgar/data/1234/000123456722000001/exhibit99.htm'',
                       ''/Archives/edgar/data/1234/000123456722000001/R1.htm'']
       = Some ''/Archives/edgar/data/1234/000123456722000001/R1.htm''"
    by code_simp
qed

text \<open>
  C1, as the specification words it (the candidates are the links whose file name contains
  \<^verbatim>\<open>.htm\<close>), fails: the link \<^verbatim>\<open>/Archives/edgar/data/1/a.htm/x.txt\<close> has the file name
  \<^verbatim>\<open>x.txt\<close>, so the rule of the specification finds no candidate and fails, while the
  program finds \<^verbatim>\<open>.htm\<close> in the link and chooses it.
\<close>

theorem choose_main_doc_filename_counterexample:
  "choose_main_doc [''/Archives/edgar/data/1/a.htm/x.txt'']
     = Some ''/Archives/edgar/data/1/a.htm/x.txt''
   \<and> spec_choice spec_candidate [''/Archives/edgar/data/1/a.htm/x.txt''] = None"
  by code_simp


section \<open>The start of the filing body\<close>

lemma startswith_iff: "startswith s p \<longleftrightarrow> (\<exists>r. s = p @ r)"
  by (induction s p rule: startswith.induct) auto

lemma contains_iff: "contains sub s \<longleftrightarrow> (\<exists>pre post. s = pre @ sub @ post)"
proof (induction s)
  case Nil
  then show ?case by auto
next
  case (Cons c cs)
  show ?case
  proof
    assume "contains sub (c # cs)"
    then consider "startswith (c # cs) sub" | "contains sub cs" by auto
    then show "\<exists>pre post. c # cs = pre @ sub @ post"
    proof cases
      case 1
      then obtain r where "c # cs = sub @ r" by (auto simp: startswith_iff)
      then have "c # cs = [] @ sub @ r" by simp
      then show ?thesis by blast
    next
      case 2
      then obtain pre post where "cs = pre @ sub @ post" using Cons.IH by blast
      then have "c # cs = (c # pre) @ sub @ post" by simp
      then show ?thesis by blast
    qed
  next
    assume "\<exists>pre post. c # cs = pre @ sub @ post"
    then obtain pre post where e: "c # cs = pre @ sub @ post" by blast
    show "contains sub (c # cs)"
    proof (cases pre)
      case Nil
      then have "startswith (c # cs) sub" using e by (auto simp: startswith_iff)
      then show ?thesis by simp
    next
      case (Cons p ps)
      then have "cs = ps @ sub @ post" using e by simp
      then have "contains sub cs" using Cons.IH by blast
      then show ?thesis by simp
    qed
  qed
qed

lemma rstrip_append:
  "rstrip (xs @ ys) = (if list_all is_space ys then rstrip xs else xs @ rstrip ys)"
  by (auto simp: rstrip_def dropWhile_append list_all_iff)

lemma rstrip_prefix: "\<exists>ws. l = rstrip l @ ws"
proof -
  have "rev l = takeWhile is_space (rev l) @ dropWhile is_space (rev l)" by simp
  then have "l = rev (dropWhile is_space (rev l)) @ rev (takeWhile is_space (rev l))"
    by (metis rev_append rev_rev_ident)
  then show ?thesis unfolding rstrip_def by blast
qed

lemma rstrip_all_space: "list_all is_space ys \<Longrightarrow> rstrip ys = []"
  by (simp add: rstrip_def list_all_iff dropWhile_eq_Nil_conv)

lemma rstrip_last_nonspace: "sub \<noteq> [] \<Longrightarrow> \<not> is_space (last sub) \<Longrightarrow> rstrip sub = sub"
proof -
  assume a: "sub \<noteq> []" "\<not> is_space (last sub)"
  obtain x xs where r: "rev sub = x # xs"
    using a(1) by (cases "rev sub") auto
  then have "last sub = x"
    by (metis last_rev list.sel(1) rev_rev_ident)
  then have "dropWhile is_space (rev sub) = rev sub"
    using a(2) r by simp
  then show ?thesis by (simp add: rstrip_def)
qed

lemma rstrip_keeps:
  assumes "sub \<noteq> []" "\<not> is_space (last sub)"
  shows "rstrip (pre @ sub @ post) = pre @ sub @ rstrip post"
proof -
  have "last sub \<in> set sub" using assms(1) by simp
  then have nsub: "\<not> list_all is_space sub"
    using assms(2) by (auto simp: list_all_iff)
  then have ns: "\<not> list_all is_space (sub @ post)"
    by simp
  have "rstrip (sub @ post) = sub @ rstrip post"
    using assms by (simp add: rstrip_append rstrip_all_space rstrip_last_nonspace)
  moreover have "rstrip (pre @ (sub @ post)) = pre @ rstrip (sub @ post)"
    using ns by (simp only: rstrip_append if_False)
  ultimately show ?thesis
    by simp
qed

lemma contains_rstrip:
  assumes "sub \<noteq> []" "\<not> is_space (last sub)"
  shows "contains sub (rstrip l) = contains sub l"
proof
  assume "contains sub (rstrip l)"
  then obtain pre post where "rstrip l = pre @ sub @ post" by (auto simp: contains_iff)
  moreover obtain ws where "l = rstrip l @ ws" using rstrip_prefix by blast
  ultimately have "l = pre @ sub @ (post @ ws)" by simp
  then show "contains sub l" unfolding contains_iff by blast
next
  assume "contains sub l"
  then obtain pre post where "l = pre @ sub @ post" by (auto simp: contains_iff)
  then have "rstrip l = pre @ sub @ rstrip post" using assms by (simp add: rstrip_keeps)
  then show "contains sub (rstrip l)" unfolding contains_iff by blast
qed

lemma marker_rstrip: "has_marker (rstrip l) = has_marker l"
  unfolding has_marker_def by (rule contains_rstrip) (simp_all add: is_space_def)

lemma rstrip_Nil_iff: "rstrip l = [] \<longleftrightarrow> (\<forall>c \<in> set l. is_space c)"
  by (auto simp: rstrip_def dropWhile_eq_Nil_conv)

lemma rstrip_last: "rstrip l \<noteq> [] \<Longrightarrow> \<not> is_space (last (rstrip l))"
  unfolding rstrip_def
  by (metis hd_dropWhile last_rev rev_is_Nil_conv)

lemma strip_rstrip_nonempty: "rstrip l \<noteq> [] \<Longrightarrow> strip (rstrip l) \<noteq> []"
proof -
  assume a: "rstrip l \<noteq> []"
  then have "\<not> is_space (last (rstrip l))" by (rule rstrip_last)
  then have r: "rstrip (rstrip l) = rstrip l" using a by (simp add: rstrip_last_nonspace)
  have "last (rstrip l) \<in> set (rstrip l)" using a by simp
  then have "\<not> (\<forall>c \<in> set (rstrip l). is_space c)" using \<open>\<not> is_space (last (rstrip l))\<close> by blast
  then show ?thesis by (simp add: strip_def lstrip_def r dropWhile_eq_Nil_conv)
qed

lemma clean_step_blank: "rstrip raw = [] \<Longrightarrow> clean_step raw st = st"
  by (cases st) (simp add: clean_step_def)

lemma clean_step_found:
  "rstrip raw \<noteq> [] \<Longrightarrow> clean_step raw (True, acc) =
     (True, if dropped_later (rstrip raw) then acc else acc @ [rstrip raw])"
  using strip_rstrip_nonempty [of raw] by (simp add: clean_step_def dropped_later_def Let_def)

lemma clean_step_before:
  "rstrip raw \<noteq> [] \<Longrightarrow> clean_step raw (False, acc) =
     (if has_marker (rstrip raw)
      then (True, if dropped_later (rstrip raw) then acc else acc @ [rstrip raw])
      else (False, acc))"
  using strip_rstrip_nonempty [of raw] by (simp add: clean_step_def dropped_later_def has_marker_def Let_def)

lemma fold_clean_found:
  "fold clean_step ls (True, acc) =
     (True, acc @ filter (\<lambda>l. \<not> dropped_later l) (nonblank_lines ls))"
proof (induction ls arbitrary: acc)
  case Nil
  then show ?case by (simp add: nonblank_lines_def)
next
  case (Cons raw ls)
  show ?case
  proof (cases "rstrip raw = []")
    case True
    then show ?thesis using Cons.IH by (simp add: clean_step_blank nonblank_lines_def)
  next
    case False
    then show ?thesis using Cons.IH by (simp add: clean_step_found nonblank_lines_def)
  qed
qed

lemma fold_clean_before:
  "fold clean_step ls (False, acc) =
     (list_ex has_marker (nonblank_lines ls),
      acc @ filter (\<lambda>l. \<not> dropped_later l) (dropWhile (\<lambda>l. \<not> has_marker l) (nonblank_lines ls)))"
proof (induction ls arbitrary: acc)
  case Nil
  then show ?case by (simp add: nonblank_lines_def)
next
  case (Cons raw ls)
  show ?case
  proof (cases "rstrip raw = []")
    case True
    then show ?thesis using Cons.IH by (simp add: clean_step_blank nonblank_lines_def)
  next
    case False
    then show ?thesis using Cons.IH fold_clean_found
      by (simp add: clean_step_before nonblank_lines_def)
  qed
qed

lemma nonblank_lines_append:
  "nonblank_lines (xs @ ys) = nonblank_lines xs @ nonblank_lines ys"
  by (simp add: nonblank_lines_def)

lemma nonblank_lines_no_marker:
  "\<forall>l \<in> set ls. \<not> has_marker l \<Longrightarrow> \<forall>l \<in> set (nonblank_lines ls). \<not> has_marker l"
  by (auto simp: nonblank_lines_def marker_rstrip)

lemma clean_lines_eq:
  "clean_lines txt =
     filter (\<lambda>l. \<not> dropped_later l)
       (dropWhile (\<lambda>l. \<not> has_marker l) (nonblank_lines (split_char nl txt)))"
  by (simp add: clean_lines_def fold_clean_before)

lemma collapse_blank_Nil: "collapse_blank [] = []"
  using collapse_blank.simps [of "[]"] by simp

text \<open>
  C7. The cleaned lines are the lines from the first line that contains
  \<^verbatim>\<open>UNITED STATES\<close> on (blank lines left out, the whitespace at the end of a line removed,
  the lines of the two later filters dropped): every line before that first line is
  discarded, however late it comes. Whether a line contains the marker does not depend on
  the whitespace at its end. When no line contains the marker, every line is dropped and
  the cleaned text is empty.
\<close>

theorem clean_lines_after_marker:
  "clean_lines txt =
     filter (\<lambda>l. \<not> dropped_later l)
       (dropWhile (\<lambda>l. \<not> has_marker l) (nonblank_lines (split_char nl txt)))
   \<and> has_marker (rstrip l) = has_marker l
   \<and> (split_char nl txt = pre @ m # post \<and> (\<forall>l \<in> set pre. \<not> has_marker l) \<and> has_marker m
        \<longrightarrow> clean_lines txt = snd (fold clean_step (m # post) (False, [])))
   \<and> ((\<forall>l \<in> set (split_char nl txt). \<not> has_marker l)
        \<longrightarrow> clean_lines txt = [] \<and> clean_text txt = [])"
proof (intro conjI impI)
  show "clean_lines txt =
     filter (\<lambda>l. \<not> dropped_later l)
       (dropWhile (\<lambda>l. \<not> has_marker l) (nonblank_lines (split_char nl txt)))"
    by (rule clean_lines_eq)
next
  show "has_marker (rstrip l) = has_marker l"
    by (rule marker_rstrip)
next
  assume a: "split_char nl txt = pre @ m # post \<and> (\<forall>l \<in> set pre. \<not> has_marker l)
      \<and> has_marker m"
  then have "\<forall>l \<in> set (nonblank_lines pre). \<not> has_marker l"
    using nonblank_lines_no_marker by blast
  then have "dropWhile (\<lambda>l. \<not> has_marker l) (nonblank_lines pre @ nonblank_lines (m # post))
      = dropWhile (\<lambda>l. \<not> has_marker l) (nonblank_lines (m # post))"
    by (simp add: dropWhile_append2)
  then show "clean_lines txt = snd (fold clean_step (m # post) (False, []))"
    using a by (simp only: clean_lines_eq nonblank_lines_append fold_clean_before snd_conv
        append_Nil)
next
  assume "\<forall>l \<in> set (split_char nl txt). \<not> has_marker l"
  then have "\<forall>l \<in> set (nonblank_lines (split_char nl txt)). \<not> has_marker l"
    by (rule nonblank_lines_no_marker)
  then have dw: "dropWhile (\<lambda>l. \<not> has_marker l) (nonblank_lines (split_char nl txt)) = []"
    by (simp add: dropWhile_eq_Nil_conv)
  show c: "clean_lines txt = []"
    unfolding clean_lines_eq dw by simp
  show "clean_text txt = []"
    using c by (simp add: clean_text_def collapse_blank_Nil)
qed

text \<open>
  A document that names the marker only in its footer keeps the footer alone; a document
  without the marker keeps nothing.
\<close>

theorem clean_lines_after_marker_witness:
  "clean_lines (''Cover page'' @ [nl] @ ''Item 1. Business'' @ [nl]
                  @ ''Printed in the UNITED STATES  '' @ [nl] @ ''Last line'')
     = [''Printed in the UNITED STATES'', ''Last line'']
   \<and> clean_lines (''Cover page'' @ [nl] @ ''Item 1. Business'') = []
   \<and> clean_text (''Cover page'' @ [nl] @ ''Item 1. Business'') = []"
proof -
  let ?t = "''Cover page'' @ [nl] @ ''Item 1. Business'' @ [nl]
              @ ''Printed in the UNITED STATES  '' @ [nl] @ ''Last line''"
  let ?u = "''Cover page'' @ [nl] @ ''Item 1. Business''"
  have sp: "split_char nl ?t =
      [''Cover page'', ''Item 1. Business''] @ ''Printed in the UNITED STATES  '' # [''Last line'']"
    by (simp add: nl_def)
  have pre: "\<forall>l \<in> set [''Cover page'', ''Item 1. Business'']. \<not> has_marker l"
    by (simp add: has_marker_def)
  have m: "has_marker ''Printed in the UNITED STATES  ''"
    by (simp add: has_marker_def)
  have "clean_lines ?t =
      snd (fold clean_step (''Printed in the UNITED STATES  '' # [''Last line'']) (False, []))"
    using clean_lines_after_marker [of ?t _ "[''Cover page'', ''Item 1. Business'']"
        "''Printed in the UNITED STATES  ''" "[''Last line'']"] sp pre m
    by blast
  also have "\<dots> = [''Printed in the UNITED STATES'', ''Last line'']"
    by code_simp
  finally have one: "clean_lines ?t = [''Printed in the UNITED STATES'', ''Last line'']" .
  have su: "split_char nl ?u = [''Cover page'', ''Item 1. Business'']"
    by (simp add: nl_def)
  have "\<forall>l \<in> set (split_char nl ?u). \<not> has_marker l"
    by (simp add: su has_marker_def)
  then have "clean_lines ?u = [] \<and> clean_text ?u = []"
    using clean_lines_after_marker [of ?u] by blast
  then show ?thesis
    using one by simp
qed


section \<open>The output path\<close>

lemma save_file_path:
  "save_file e folder ticker filename txt s = (Inr p, s') \<Longrightarrow>
     \<exists>root. folder = Some root \<and> p = root @ [upper ticker, ''original'', filename]"
  by (auto simp: save_file_def path_join_def Let_def split: option.splits if_splits)

lemma written_path_annual:
  "written_path e s ticker ''10-K'' mf txt = Some p \<Longrightarrow>
     \<exists>root. output_folder_10k s = Some root
       \<and> p = root @ [upper ticker, ''original'',
                     ''10K-'' @ upper ticker @ ''-'' @ year_part (filing_date mf) @ ''.txt'']"
  by (auto simp: written_path_def derive_filename_def save_file_def path_join_def Let_def
           split: option.splits if_splits sum.splits)

lemma written_path_quarterly:
  "written_path e s ticker ''10-Q'' mf txt = Some p \<Longrightarrow>
     \<exists>root m. output_folder_10q s = Some root
       \<and> py_int (month_part (report_date mf)) = Inr m
       \<and> p = root @ [upper ticker, ''original'',
                     ''10Q-'' @ upper ticker @ ''-Q'' @ str_of_int ((m - 1) div 3 + 1)
                       @ year_part (filing_date mf) @ ''.txt'']"
  by (auto simp: written_path_def derive_filename_def save_file_def path_join_def Let_def quarter_num_def
           split: option.splits if_splits sum.splits)

lemma written_path_annual_total:
  "output_folder_10k s = Some root \<Longrightarrow>
   \<not> mkdir_fails e (root @ [upper ticker, ''original'']) \<Longrightarrow>
   \<not> write_fails e (root @ [upper ticker, ''original'',
                     ''10K-'' @ upper ticker @ ''-'' @ year_part (filing_date mf) @ ''.txt'']) \<Longrightarrow>
   written_path e s ticker ''10-K'' mf txt
     = Some (root @ [upper ticker, ''original'',
                     ''10K-'' @ upper ticker @ ''-'' @ year_part (filing_date mf) @ ''.txt''])"
  by (simp add: written_path_def derive_filename_def save_file_def path_join_def Let_def)

lemma download_loop_writes:
  assumes "fetch_filing_from_edgar e cik (accession_number mf) s = (Some txt, s1)" "txt \<noteq> []"
    and "written_path e s1 ticker filing_type mf txt = Some p"
  shows "\<exists>s2. download_loop e ticker filing_type cik [mf] True s = (Inr True, s2)
           \<and> files_written s2 = files_written s1 @ [(p, txt)]"
  using assms
  by (auto simp: written_path_def save_file_def Let_def path_join_def split: sum.splits prod.splits option.splits if_splits)

text \<open>
  C8. A filing that is written is written to the output root of its category, joined with
  the symbol in upper case, with \<^verbatim>\<open>original\<close> and with the file name:
  \<^verbatim>\<open>10K-SYMBOL-\<close>, the year and \<^verbatim>\<open>.txt\<close> for an annual report; \<^verbatim>\<open>10Q-SYMBOL-Q\<close>, the
  quarter, the year and \<^verbatim>\<open>.txt\<close> for a quarterly one, the year being the first four
  characters of the filing date and the quarter derived from the month of the report date.
  So two writes for the
  same symbol (up to case), category, year and quarter go to the same path, whatever the
  text. When the folder is set and the file system does not refuse, the annual report is
  written.
\<close>

theorem output_path_deterministic:
  "(written_path e s ticker ''10-K'' mf txt = Some p \<longrightarrow>
      (\<exists>root. output_folder_10k s = Some root
         \<and> p = root @ [upper ticker, ''original'',
                       ''10K-'' @ upper ticker @ ''-'' @ year_part (filing_date mf) @ ''.txt'']))
   \<and> (written_path e s ticker ''10-Q'' mf txt = Some p \<longrightarrow>
      (\<exists>root m. output_folder_10q s = Some root
         \<and> py_int (month_part (report_date mf)) = Inr m
         \<and> p = root @ [upper ticker, ''original'',
                       ''10Q-'' @ upper ticker @ ''-Q'' @ str_of_int ((m - 1) div 3 + 1)
                         @ year_part (filing_date mf) @ ''.txt'']))
   \<and> (upper t1 = upper t2 \<and> year_part (filing_date f1) = year_part (filing_date f2)
        \<and> output_folder_10k sa = output_folder_10k sb
        \<and> written_path e sa t1 ''10-K'' f1 x1 = Some p1
        \<and> written_path e sb t2 ''10-K'' f2 x2 = Some p2
        \<longrightarrow> p1 = p2)
   \<and> (upper t1 = upper t2 \<and> year_part (filing_date f1) = year_part (filing_date f2)
        \<and> py_int (month_part (report_date f1)) = Inr m1
        \<and> py_int (month_part (report_date f2)) = Inr m2
        \<and> quarter_num m1 = quarter_num m2
        \<and> output_folder_10q sa = output_folder_10q sb
        \<and> written_path e sa t1 ''10-Q'' f1 x1 = Some p1
        \<and> written_path e sb t2 ''10-Q'' f2 x2 = Some p2
        \<longrightarrow> p1 = p2)
   \<and> (output_folder_10k s = Some root
        \<and> \<not> mkdir_fails e (root @ [upper ticker, ''original''])
        \<and> \<not> write_fails e (root @ [upper ticker, ''original'',
                     ''10K-'' @ upper ticker @ ''-'' @ year_part (filing_date mf) @ ''.txt''])
        \<longrightarrow> written_path e s ticker ''10-K'' mf txt
             = Some (root @ [upper ticker, ''original'',
                     ''10K-'' @ upper ticker @ ''-'' @ year_part (filing_date mf) @ ''.txt'']))"
proof (intro conjI impI)
  assume "written_path e s ticker ''10-K'' mf txt = Some p"
  then show "\<exists>root. output_folder_10k s = Some root
         \<and> p = root @ [upper ticker, ''original'',
                       ''10K-'' @ upper ticker @ ''-'' @ year_part (filing_date mf) @ ''.txt'']"
    by (rule written_path_annual)
next
  assume "written_path e s ticker ''10-Q'' mf txt = Some p"
  then show "\<exists>root m. output_folder_10q s = Some root
         \<and> py_int (month_part (report_date mf)) = Inr m
         \<and> p = root @ [upper ticker, ''original'',
                       ''10Q-'' @ upper ticker @ ''-Q'' @ str_of_int ((m - 1) div 3 + 1)
                         @ year_part (filing_date mf) @ ''.txt'']"
    by (rule written_path_quarterly)
next
  assume a: "upper t1 = upper t2 \<and> year_part (filing_date f1) = year_part (filing_date f2)
        \<and> output_folder_10k sa = output_folder_10k sb
        \<and> written_path e sa t1 ''10-K'' f1 x1 = Some p1
        \<and> written_path e sb t2 ''10-K'' f2 x2 = Some p2"
  then show "p1 = p2"
    using written_path_annual [of e sa t1 f1 x1 p1] written_path_annual [of e sb t2 f2 x2 p2]
    by auto
next
  assume a: "upper t1 = upper t2 \<and> year_part (filing_date f1) = year_part (filing_date f2)
        \<and> py_int (month_part (report_date f1)) = Inr m1
        \<and> py_int (month_part (report_date f2)) = Inr m2
        \<and> quarter_num m1 = quarter_num m2
        \<and> output_folder_10q sa = output_folder_10q sb
        \<and> written_path e sa t1 ''10-Q'' f1 x1 = Some p1
        \<and> written_path e sb t2 ''10-Q'' f2 x2 = Some p2"
  then show "p1 = p2"
    using written_path_quarterly [of e sa t1 f1 x1 p1] written_path_quarterly [of e sb t2 f2 x2 p2]
    by (auto simp: quarter_num_def)
next
  assume "output_folder_10k s = Some root
        \<and> \<not> mkdir_fails e (root @ [upper ticker, ''original''])
        \<and> \<not> write_fails e (root @ [upper ticker, ''original'',
                     ''10K-'' @ upper ticker @ ''-'' @ year_part (filing_date mf) @ ''.txt''])"
  then show "written_path e s ticker ''10-K'' mf txt
             = Some (root @ [upper ticker, ''original'',
                     ''10K-'' @ upper ticker @ ''-'' @ year_part (filing_date mf) @ ''.txt''])"
    by (simp add: written_path_annual_total)
qed

theorem output_path_deterministic_witness:
  "written_path example_env example_state ''zt'' ''10-Q'' example_quarterly ''text''
     = Some [''out/10Q'', ''ZT'', ''original'', ''10Q-ZT-Q22022.txt'']
   \<and> written_path example_env example_state ''Zt'' ''10-Q''
         (example_quarterly\<lparr>report_date := ''2022-04-30''\<rparr>) ''other''
     = Some [''out/10Q'', ''ZT'', ''original'', ''10Q-ZT-Q22022.txt'']
   \<and> written_path example_env example_state ''zt'' ''10-K'' example_annual ''text''
     = Some [''out/10K'', ''ZT'', ''original'', ''10K-ZT-2022.txt'']"
proof -
  let ?f2 = "example_quarterly\<lparr>report_date := ''2022-04-30''\<rparr>"
  let ?p = "[''out/10Q'', ''ZT'', ''original'', ''10Q-ZT-Q22022.txt'']"
  have p2: "written_path example_env example_state ''Zt'' ''10-Q'' ?f2 ''other'' = Some ?p"
    by code_simp
  obtain p1 where p1: "written_path example_env example_state ''zt'' ''10-Q''
      example_quarterly ''text'' = Some p1"
    by (simp add: written_path_def derive_filename_def save_file_def Let_def example_simps
          string_simps py_int_def)
  have hyps: "upper ''zt'' = upper ''Zt''
      \<and> year_part (filing_date example_quarterly) = year_part (filing_date ?f2)
      \<and> py_int (month_part (report_date example_quarterly)) = Inr 5
      \<and> py_int (month_part (report_date ?f2)) = Inr 4
      \<and> quarter_num 5 = quarter_num 4
      \<and> output_folder_10q example_state = output_folder_10q example_state"
    by (simp add: example_simps string_simps py_int_def quarter_num_def)
  have same: "p1 = ?p"
    using output_path_deterministic [where e = example_env and sa = example_state
        and sb = example_state and ?t1.0 = "''zt''" and ?t2.0 = "''Zt''"
        and ?f1.0 = example_quarterly and ?f2.0 = ?f2 and ?m1.0 = 5 and ?m2.0 = 4
        and ?x1.0 = "''text''" and ?x2.0 = "''other''" and ?p1.0 = p1 and ?p2.0 = "?p"]
      hyps p1 p2
    by blast
  have form: "\<exists>root m. output_folder_10q example_state = Some root
         \<and> py_int (month_part (report_date example_quarterly)) = Inr m
         \<and> p1 = root @ [upper ''zt'', ''original'',
                       ''10Q-'' @ upper ''zt'' @ ''-Q'' @ str_of_int ((m - 1) div 3 + 1)
                         @ year_part (filing_date example_quarterly) @ ''.txt'']"
    using output_path_deterministic [where e = example_env and s = example_state
        and ticker = "''zt''" and mf = example_quarterly and ?txt = "''text''" and p = p1] p1
    by blast
  have k: "output_folder_10k example_state = Some [''out/10K'']
      \<and> \<not> mkdir_fails example_env ([''out/10K''] @ [upper ''zt'', ''original''])
      \<and> \<not> write_fails example_env ([''out/10K''] @ [upper ''zt'', ''original'',
            ''10K-'' @ upper ''zt'' @ ''-'' @ year_part (filing_date example_annual) @ ''.txt''])"
    by (simp add: example_simps)
  have "written_path example_env example_state ''zt'' ''10-K'' example_annual ''text''
      = Some ([''out/10K''] @ [upper ''zt'', ''original'',
            ''10K-'' @ upper ''zt'' @ ''-'' @ year_part (filing_date example_annual) @ ''.txt''])"
    using output_path_deterministic [where e = example_env and s = example_state
        and ticker = "''zt''" and mf = example_annual and ?txt = "''text''"
        and root = "[''out/10K'']"] k
    by blast
  then have a: "written_path example_env example_state ''zt'' ''10-K'' example_annual ''text''
      = Some [''out/10K'', ''ZT'', ''original'', ''10K-ZT-2022.txt'']"
    by (simp add: example_simps string_simps)
  show ?thesis
    using p1 p2 same a by simp
qed


section \<open>The minimum length\<close>

lemma fetch_returns_long:
  "fst (fetch_filing_from_edgar e cik accession s) = Some d \<Longrightarrow> 5000 < length d"
  by (auto simp: fetch_filing_from_edgar_def fetch_body_def http_get_def Let_def
           split: sum.splits option.splits if_splits prod.splits)

lemma split_char_single: "sep \<notin> set s \<Longrightarrow> split_char sep s = [s]"
  by (induction s) auto

lemma contains_subset: "contains sub s \<Longrightarrow> set sub \<subseteq> set s"
  by (auto simp: contains_iff)

lemma clean_text_single_line:
  assumes "nl \<notin> set t" "t \<noteq> []" "\<not> is_space (last t)" "has_marker t"
    and "CHR ''h'' \<notin> set t" "CHR '':'' \<notin> set t"
  shows "clean_text t = t"
proof -
  have r: "rstrip t = t" using assms by (simp add: rstrip_last_nonspace)
  have "\<not> contains ''http'' t" using assms(5) contains_subset by fastforce
  moreover have "\<not> contains '':'' t" using assms(6) contains_subset by fastforce
  ultimately have nd: "\<not> dropped_later t"
    by (simp add: dropped_later_def is_xbrl_ref_def is_ns_token_def)
  have "clean_lines t = [t]"
    using assms r nd by (simp add: clean_lines_eq split_char_single nonblank_lines_def)
  moreover have "\<not> contains [nl, nl, nl] t" using assms(1) contains_subset by fastforce
  then have "collapse_blank t = t" using collapse_blank.simps [of t] by simp
  ultimately show ?thesis by (simp add: clean_text_def)
qed

lemma example_long_text:
  "clean_text (''UNITED STATES'' @ replicate 5000 CHR ''x'') = ''UNITED STATES'' @ replicate 5000 CHR ''x''"
proof (rule clean_text_single_line)
  show "has_marker (''UNITED STATES'' @ replicate 5000 CHR ''x'')"
    unfolding has_marker_def contains_iff by (metis append_Nil)
qed (auto simp: nl_def is_space_def)

lemma example_long_doc_clean: "clean_text example_long_doc = example_long_doc"
  unfolding example_long_doc_def by (rule example_long_text)

lemma example_long_doc_length: "length example_long_doc = 5013"
  by (simp add: example_long_doc_def)

lemma example_main_doc:
  "choose_main_doc [''/Archives/edgar/data/1234/000123456722000001/exhibit99.htm'',
                    ''/Archives/edgar/data/1234/000123456722000001/R1.htm'']
     = Some ''/Archives/edgar/data/1234/000123456722000001/R1.htm''"
  by code_simp

lemma example_short_text: "clean_text ''UNITED STATES'' = ''UNITED STATES''"
  by (rule clean_text_single_line) (auto simp: nl_def is_space_def has_marker_def)

text \<open>
  C6. When both fetches succeed (status 200, a document chosen, the markup read), the
  extractor returns the cleaned text if it is longer than 5000 characters and reports
  failure if its length is at most 5000. In every case a document that is returned is
  longer than 5000 characters: a short text is never a valid document.
\<close>

theorem short_text_is_failure:
  "(requests_get e (dir_url cik accession) = Inr r1 \<and> status_code r1 = 200
      \<and> soup_hrefs e (resp_text r1) = Inr hrefs \<and> choose_main_doc hrefs = Some main_doc
      \<and> requests_get e (main_doc_url main_doc) = Inr r2 \<and> status_code r2 = 200
      \<and> soup_text e (resp_text r2) = Inr txt
      \<longrightarrow> fst (fetch_filing_from_edgar e cik accession s)
            = (if length (clean_text txt) \<le> 5000 then None else Some (clean_text txt)))
   \<and> (\<forall>d. fst (fetch_filing_from_edgar e cik accession s) = Some d \<longrightarrow> 5000 < length d)"
proof (intro conjI impI allI)
  assume "requests_get e (dir_url cik accession) = Inr r1 \<and> status_code r1 = 200
      \<and> soup_hrefs e (resp_text r1) = Inr hrefs \<and> choose_main_doc hrefs = Some main_doc
      \<and> requests_get e (main_doc_url main_doc) = Inr r2 \<and> status_code r2 = 200
      \<and> soup_text e (resp_text r2) = Inr txt"
  then show "fst (fetch_filing_from_edgar e cik accession s)
            = (if length (clean_text txt) \<le> 5000 then None else Some (clean_text txt))"
    by (simp add: fetch_filing_from_edgar_def fetch_body_def http_get_def Let_def)
next
  fix d assume "fst (fetch_filing_from_edgar e cik accession s) = Some d"
  then show "5000 < length d" by (rule fetch_returns_long)
qed

text \<open>
  A placeholder document of 13 characters is a failure; a document of 5013 characters is
  returned as it is.
\<close>

theorem short_text_is_failure_witness:
  "fst (fetch_filing_from_edgar example_env ''0000001234'' ''0001234567-22-000001''
          example_state) = None
   \<and> fst (fetch_filing_from_edgar example_env_long ''0000001234'' ''0001234567-22-000001''
            example_state) = Some example_long_doc
   \<and> length example_long_doc = 5013"
proof -
  let ?cik = "''0000001234''" and ?acc = "''0001234567-22-000001''"
  let ?hrefs = "[''/Archives/edgar/data/1234/000123456722000001/exhibit99.htm'',
                 ''/Archives/edgar/data/1234/000123456722000001/R1.htm'']"
  let ?doc = "''/Archives/edgar/data/1234/000123456722000001/R1.htm''"
  let ?r1 = "\<lparr>status_code = 200, resp_text = dir_url ?cik ?acc\<rparr>"
  let ?r2 = "\<lparr>status_code = 200, resp_text = main_doc_url ?doc\<rparr>"
  have short: "requests_get example_env (dir_url ?cik ?acc) = Inr ?r1 \<and> status_code ?r1 = 200
      \<and> soup_hrefs example_env (resp_text ?r1) = Inr ?hrefs
      \<and> choose_main_doc ?hrefs = Some ?doc
      \<and> requests_get example_env (main_doc_url ?doc) = Inr ?r2 \<and> status_code ?r2 = 200
      \<and> soup_text example_env (resp_text ?r2) = Inr ''UNITED STATES''"
    using example_main_doc by (simp add: example_env_def)
  have long: "requests_get example_env_long (dir_url ?cik ?acc) = Inr ?r1
      \<and> status_code ?r1 = 200
      \<and> soup_hrefs example_env_long (resp_text ?r1) = Inr ?hrefs
      \<and> choose_main_doc ?hrefs = Some ?doc
      \<and> requests_get example_env_long (main_doc_url ?doc) = Inr ?r2 \<and> status_code ?r2 = 200
      \<and> soup_text example_env_long (resp_text ?r2)
          = Inr example_long_doc"
    using example_main_doc by (simp add: example_env_long_def example_env_def)
  have a: "fst (fetch_filing_from_edgar example_env ?cik ?acc example_state)
      = (if length (clean_text ''UNITED STATES'') \<le> 5000 then None
         else Some (clean_text ''UNITED STATES''))"
    using short_text_is_failure [where e = example_env and cik = ?cik and accession = ?acc
        and ?r1.0 = ?r1 and ?r2.0 = ?r2 and hrefs = ?hrefs and main_doc = ?doc
        and ?txt = "''UNITED STATES''" and s = example_state] short
    by blast
  have b: "fst (fetch_filing_from_edgar example_env_long ?cik ?acc example_state)
      = (if length (clean_text example_long_doc) \<le> 5000 then None
         else Some (clean_text example_long_doc))"
    using short_text_is_failure [where e = example_env_long and cik = ?cik and accession = ?acc
        and ?r1.0 = ?r1 and ?r2.0 = ?r2 and hrefs = ?hrefs and main_doc = ?doc
        and ?txt = "example_long_doc" and s = example_state] long
    by blast
  show ?thesis
    using a b by (simp add: example_short_text example_long_doc_clean example_long_doc_length)
qed

end
